theory Spec2Isabelle
  imports Main "HOL-Library.Word" "HOL-Library.Sublist" "HOL-Library.Multiset"
begin

unbundle bit_operations_syntax

section \<open>DiskArchive: a shallow embedding of src/app/DiskArchive.cpp\<close>

text \<open>
  Strings (\<open>CString\<close>, \<open>WCHAR*\<close>, \<open>char*\<close>) are \<open>string\<close>; \<open>long\<close> and \<open>int\<close>
  quantities that the code only compares are \<open>int\<close>; bytes are \<open>8 word\<close>.
  \<open>ASSERT\<close> compiles to nothing in a release build and is modelled as a no-op; where a
  theorem relies on an asserted condition it appears as a hypothesis.
\<close>

subsection \<open>Data model\<close>

datatype FileKind =
    kFileKindUnknown
  | kFileKindDataFork
  | kFileKindRsrcFork
  | kFileKindDiskImage
  | kFileKindBothForks
  | kFileKindDirectory

datatype NuStorageType =
    kNuStorageUnknown
  | kNuStorageSeedling
  | kNuStorageExtended
  | kNuStorageDirectory

datatype FSFormat =
    kFormatUnknown
  | kFormatProDOS
  | kFormatDOS33
  | kFormatDOS32
  | kFormatPascal
  | kFormatMacHFS
  | kFormatUNIDOS
  | kFormatGutenberg
  | kFormatCPM
  | kFormatMSDOS
  | kFormatRDOS33
  | kFormatRDOS32
  | kFormatRDOS3
  | kFormatOther nat

record FileDetails =
  origName :: string
  storageName :: string
  entryKind :: FileKind
  fileSysFmt :: FSFormat
  fileSysInfo :: char
  fd_storageType :: NuStorageType
  fd_fileType :: int
  extraType :: int
  fd_access :: "32 word"
  fd_createWhen :: int
  fd_modWhen :: int

text \<open>
  A node of the pending-add list. The \<open>next\<close> pointer is the list structure itself;
  the "other fork" pointer owns at most one further node.
\<close>

datatype FileAddData =
  FileAddData (GetDetails: FileDetails) (GetFSNormalPath: string)
              (GetOtherFork: "FileAddData option")

text \<open>\<open>new FileAddData(pDetails, fsNormalBuf)\<close>: a fresh node has no other fork.\<close>

definition FileAddData_new :: "FileDetails \<Rightarrow> string \<Rightarrow> FileAddData" where
  "FileAddData_new pDetails fsNormalBuf = FileAddData pDetails fsNormalBuf None"

definition SetOtherFork :: "FileAddData \<Rightarrow> FileAddData \<Rightarrow> FileAddData" where
  "SetOtherFork pSearch pData =
     FileAddData (GetDetails pSearch) (GetFSNormalPath pSearch) (Some pData)"

subsection \<open>AddToAddDataList\<close>

text \<open>
  The \<open>while (pSearch != NULL)\<close> loop: \<open>Some\<close> of the updated list when the candidate was
  hooked into an existing node (the early \<open>return\<close>), \<open>None\<close> when the loop ran off the
  end of the list.
\<close>

fun AddToAddDataList_search :: "FileAddData list \<Rightarrow> FileAddData \<Rightarrow> FileAddData list option" where
  "AddToAddDataList_search [] pData = None"
| "AddToAddDataList_search (pSearch # rest) pData =
     (let dataKind = entryKind (GetDetails pData) in
      if GetOtherFork pSearch = None \<and>
         storageName (GetDetails pSearch) = storageName (GetDetails pData)
      then
        (let listKind = entryKind (GetDetails pSearch) in
         if dataKind \<noteq> listKind \<and>
            (dataKind = kFileKindDataFork \<or> dataKind = kFileKindRsrcFork) \<and>
            (listKind = kFileKindDataFork \<or> listKind = kFileKindRsrcFork)
         then Some (SetOtherFork pSearch pData # rest)
         else map_option ((#) pSearch) (AddToAddDataList_search rest pData))
      else map_option ((#) pSearch) (AddToAddDataList_search rest pData))"

definition AddToAddDataList :: "FileAddData list \<Rightarrow> FileAddData \<Rightarrow> FileAddData list" where
  "AddToAddDataList fpAddData pData =
     (case AddToAddDataList_search fpAddData pData of
        Some hooked \<Rightarrow> hooked
      | None \<Rightarrow> fpAddData @ [pData])"

text \<open>Two entry kinds are complementary when one is the data fork and the other the resource fork.\<close>

definition complementary :: "FileKind \<Rightarrow> FileKind \<Rightarrow> bool" where
  "complementary a b \<longleftrightarrow>
     (a = kFileKindDataFork \<and> b = kFileKindRsrcFork) \<or>
     (a = kFileKindRsrcFork \<and> b = kFileKindDataFork)"

text \<open>No node of the list that is still unpaired carries the storage name \<open>n\<close>.\<close>

definition no_unpaired_named :: "string \<Rightarrow> FileAddData list \<Rightarrow> bool" where
  "no_unpaired_named n xs \<longleftrightarrow>
     list_all (\<lambda>x. GetOtherFork x \<noteq> None \<or> storageName (GetDetails x) \<noteq> n) xs"

text \<open>
  The matching rule in the words of the specification: a node of the list takes a
  candidate as its other fork when it is unpaired, has the same storage name, and the two
  kinds are complementary.
\<close>

definition pairs_with :: "FileAddData \<Rightarrow> FileAddData \<Rightarrow> bool" where
  "pairs_with node cand \<longleftrightarrow>
     GetOtherFork node = None \<and>
     storageName (GetDetails node) = storageName (GetDetails cand) \<and>
     complementary (entryKind (GetDetails cand)) (entryKind (GetDetails node))"

text \<open>Fixed example values used to instantiate the theorems at concrete inputs.\<close>

definition exDetails :: "string \<Rightarrow> FileKind \<Rightarrow> FileDetails" where
  "exDetails n k = \<lparr> origName = n, storageName = n, entryKind = k,
     fileSysFmt = kFormatUnknown, fileSysInfo = CHR '':'',
     fd_storageType = kNuStorageUnknown, fd_fileType = 0, extraType = 0, fd_access = 0,
     fd_createWhen = 0, fd_modWhen = 0 \<rparr>"

subsection \<open>LoadFile\<close>

datatype ConvertEOL = kConvertEOLOff | kConvertEOLOn | kConvertEOLAuto

datatype ConvertHighASCII = kConvertHAOff | kConvertHAOn

text \<open>Only \<open>kEOLCR\<close> is named in the source; the other tags stand for the remaining values.\<close>

datatype EOLType = kEOLUnknown | kEOLCR | kEOLLF | kEOLCRLF

text \<open>
  A host file as \<open>LoadFile\<close> sees it: its bytes, and whether each of the C library
  calls made on it fails (\<open>fseek\<close>, \<open>ftell\<close>, \<open>new[]\<close>, \<open>fread\<close>). A path
  the host cannot open is \<open>None\<close> in the host file system.
\<close>

record HostFile =
  hf_bytes :: "8 word list"
  hf_seek_fails :: bool
  hf_tell_fails :: bool
  hf_alloc_fails :: bool
  hf_read_fails :: bool

text \<open>The error messages of \<open>LoadFile\<close>, one constructor per \<open>errMsg\<close> assignment.\<close>

datatype LoadError =
    UnableToOpen string
  | UnableToSeekToEnd string
  | UnableToDetermineLength string
  | CannotAddFilesLargerThan16MB
  | UnableToAllocate int string
  | UnableToReadInitialChunk string
  | UnableToRead string

definition kCharLF :: "8 word" where "kCharLF = 0x0a"
definition kCharCR :: "8 word" where "kCharCR = 0x0d"

text \<open>
  The \<open>while (count--)\<close> loop of \<open>LoadFile\<close>: \<open>getc\<close> delivers the next byte of the
  file, \<open>*buf++ = ...\<close> appends to the output.
\<close>

fun LoadFile_convert :: "8 word \<Rightarrow> bool \<Rightarrow> 8 word list \<Rightarrow> 8 word list" where
  "LoadFile_convert msk lastCR [] = []"
| "LoadFile_convert msk lastCR (ic # rest) =
     (if ic = kCharCR then (kCharCR OR msk) # LoadFile_convert msk True rest
      else if ic = kCharLF then
        (if \<not> lastCR then (kCharCR OR msk) # LoadFile_convert msk False rest
         else LoadFile_convert msk False rest)
      else
        (if ic = 0 then ic # LoadFile_convert msk False rest
         else (ic OR msk) # LoadFile_convert msk False rest))"

text \<open>
  \<open>GenericEntry::DetermineConversion\<close> is not part of this file: it is the parameter
  \<open>detConv\<close>, from the first chunk of the file to the conversion and the line-ending type
  it reports. The result is the buffer stored through \<open>pBuf\<close> (\<open>None\<close> for \<open>NULL\<close>)
  and the length stored through \<open>pLen\<close>, or the error message.
\<close>

definition LoadFile ::
  "(8 word list \<Rightarrow> ConvertEOL \<times> EOLType) \<Rightarrow> (string \<Rightarrow> HostFile option) \<Rightarrow> string \<Rightarrow>
   ConvertEOL \<Rightarrow> ConvertHighASCII \<Rightarrow> LoadError + (8 word list option \<times> int)" where
  "LoadFile detConv hostfs pathName conv convHA =
     (case hostfs pathName of
        None \<Rightarrow> Inl (UnableToOpen pathName)
      | Some fp \<Rightarrow>
          if hf_seek_fails fp then Inl (UnableToSeekToEnd pathName)
          else if hf_tell_fails fp then Inl (UnableToDetermineLength pathName)
          else
            let fileLen = int (length (hf_bytes fp)) in
            if fileLen = 0 then Inr (None, 0)
            else if fileLen > 0x00ffffff then Inl CannotAddFilesLargerThan16MB
            else if hf_alloc_fails fp then Inl (UnableToAllocate fileLen pathName)
            else
              (case (if conv = kConvertEOLAuto then
                       (let chunkLen = (if 16384 > fileLen then fileLen else 16384) in
                        if hf_read_fails fp then Inl (UnableToReadInitialChunk pathName)
                        else
                          (case detConv (take (nat chunkLen) (hf_bytes fp)) of
                             (conv', eolType) \<Rightarrow>
                               if conv' = kConvertEOLOn \<and> eolType = kEOLCR
                               then Inr kConvertEOLOff else Inr conv'))
                     else Inr conv) of
                 Inl err \<Rightarrow> Inl err
               | Inr conv' \<Rightarrow>
                   if conv' = kConvertEOLOff then
                     (if hf_read_fails fp then Inl (UnableToRead pathName)
                      else Inr (Some (hf_bytes fp), fileLen))
                   else
                     (let msk = (if convHA = kConvertHAOn then 0x80 else 0x00) in
                      Inr (Some (LoadFile_convert msk False (hf_bytes fp)),
                           int (length (LoadFile_convert msk False (hf_bytes fp)))))))"

text \<open>
  The statement of the transcoder's effect in the words of the specification: an LF that
  immediately follows a CR is dropped, every other byte is replaced one for one.
\<close>

fun drop_lf_after_cr :: "bool \<Rightarrow> 8 word list \<Rightarrow> 8 word list" where
  "drop_lf_after_cr lastCR [] = []"
| "drop_lf_after_cr lastCR (b # bs) =
     (if b = kCharLF \<and> lastCR then drop_lf_after_cr False bs
      else b # drop_lf_after_cr (b = kCharCR) bs)"

definition replace_byte :: "8 word \<Rightarrow> 8 word \<Rightarrow> 8 word" where
  "replace_byte msk b =
     (if b = kCharLF then kCharCR OR msk else if b = 0 then 0 else b OR msk)"

definition exHostFile :: "8 word list \<Rightarrow> HostFile" where
  "exHostFile bs = \<lparr> hf_bytes = bs, hf_seek_fails = False, hf_tell_fails = False,
     hf_alloc_fails = False, hf_read_fails = False \<rparr>"

subsection \<open>The filesystem driver and what this file does not declare\<close>

datatype DIError = kDIErrNone | kDIErrDirectoryExists | kDIErrOther int

record CreateParms =
  pathName :: string
  fssep :: char
  storageType :: NuStorageType
  fileType :: int
  auxType :: int
  access :: "32 word"
  createWhen :: int
  modWhen :: int

text \<open>
  Constants, tables and helpers that the source uses and other files of the repository
  declare. They are parameters of the model: every theorem holds for each value of them
  unless it says otherwise. \<open>kEmptyFolderMarker\<close> is declared in this file, as
  \<open>.$$EmptyFolder\<close>; it is a parameter all the same, and the examples give it that
  value.
\<close>

record Externals =
  UsesDOSFileStructure :: "FSFormat \<Rightarrow> bool"
  IsHierarchical :: "FSFormat \<Rightarrow> bool"
  HasResourceForks :: "FSFormat \<Rightarrow> bool"
  kEmptyFolderMarker :: string
  A2FileProDOS_kAccessInvisible :: "32 word"
  GenericEntry_kAccessInvisible :: "32 word"
  kDefaultStoredFssep :: char
  InjectLowercase :: "string \<Rightarrow> string"
  DetermineConversion :: "8 word list \<Rightarrow> ConvertEOL \<times> EOLType"
  kDateNone :: int
  kFileTypeTXT :: int
  kFileTypeSRC :: int
  DateTimeToSeconds :: "int \<Rightarrow> int"
  UNIXTimeToDateTime :: "int \<Rightarrow> int"

text \<open>
  The calls made on the driver, in the order they are made. An \<open>A2File*\<close> and an
  \<open>A2FileDescr*\<close> are opaque handles (\<open>nat\<close>), \<open>NULL\<close> is \<open>None\<close>.
\<close>

datatype DriverCall =
    CreateFileCall CreateParms
  | OpenCall nat bool
  | WriteCall nat "8 word list option" int
  | CloseCall nat
  | DeleteFileCall nat

text \<open>
  The driver answers each call depending on everything it was asked before: each operation
  takes the calls made so far. \<open>CreateFile\<close> and \<open>Open\<close> also deliver the pointer they
  store through their out-parameter.
\<close>

record Driver =
  CreateFile :: "DriverCall list \<Rightarrow> CreateParms \<Rightarrow> DIError \<times> nat option"
  Open :: "DriverCall list \<Rightarrow> nat \<Rightarrow> bool \<Rightarrow> DIError \<times> nat option"
  Write :: "DriverCall list \<Rightarrow> nat \<Rightarrow> 8 word list option \<Rightarrow> int \<Rightarrow> DIError"
  Close :: "DriverCall list \<Rightarrow> nat \<Rightarrow> DIError"
  DeleteFile :: "DriverCall list \<Rightarrow> nat \<Rightarrow> DIError"

subsection \<open>AddForksToDisk\<close>

text \<open>\<open>strrchr\<close>: the index of the last occurrence of the character, if there is one.\<close>

fun strrchr :: "string \<Rightarrow> char \<Rightarrow> nat option" where
  "strrchr [] c = None"
| "strrchr (x # xs) c =
     (case strrchr xs c of
        Some i \<Rightarrow> Some (Suc i)
      | None \<Rightarrow> if x = c then Some 0 else None)"

text \<open>\<open>CString::Left(nCount)\<close>: the leftmost \<open>nCount\<close> characters; a negative count gives the empty string.\<close>

definition Left :: "string \<Rightarrow> int \<Rightarrow> string" where
  "Left str nCount = (if nCount < 0 then [] else take (nat nCount) str)"

text \<open>
  The empty-directory-holder block: the rewritten copy of the parameters and the new
  \<open>dataLen\<close>. \<open>cp - parmCopy.pathName\<close> is the index found by \<open>strrchr\<close>, \<open>cp+1\<close> the
  text after it.
\<close>

definition AddForksToDisk_emptyFolder :: "Externals \<Rightarrow> CreateParms \<Rightarrow> int \<Rightarrow> CreateParms \<times> int" where
  "AddForksToDisk_emptyFolder ext parmCopy dataLen =
     (if fssep parmCopy \<noteq> CHR 0x00 \<and> storageType parmCopy = kNuStorageSeedling then
        (case strrchr (pathName parmCopy) (fssep parmCopy) of
           None \<Rightarrow> (parmCopy, dataLen)
         | Some cp \<Rightarrow>
             if drop (cp + 1) (pathName parmCopy) = kEmptyFolderMarker ext \<and> dataLen = 0 then
               (parmCopy \<lparr> storageType := kNuStorageDirectory,
                           pathName := Left (pathName parmCopy) (int cp - 1),
                           fileType := 0x0f,
                           access := access parmCopy AND NOT (A2FileProDOS_kAccessInvisible ext) \<rparr>,
                -1)
             else (parmCopy, dataLen))
      else (parmCopy, dataLen))"

text \<open>
  The \<open>bail:\<close> label: close a fork that is still open, delete the new file when an error
  is being returned, return the error. The results of both calls are discarded.
\<close>

datatype AddResult = Returned DIError | NullDereference

definition AddForksToDisk_bail ::
  "DIError \<Rightarrow> nat option \<Rightarrow> nat option \<Rightarrow> DriverCall list \<Rightarrow> AddResult \<times> DriverCall list" where
  "AddForksToDisk_bail dierr pNewFile pOpenFile tr =
     (let tr1 = (case pOpenFile of None \<Rightarrow> tr | Some fd \<Rightarrow> tr @ [CloseCall fd]);
          tr2 = (case pNewFile of
                   None \<Rightarrow> tr1
                 | Some f \<Rightarrow> if dierr \<noteq> kDIErrNone then tr1 @ [DeleteFileCall f] else tr1)
      in (Returned dierr, tr2))"

text \<open>
  Writing one fork: \<open>Open\<close>, \<open>Write\<close>, \<open>Close\<close>. \<open>ForkBail\<close> is a \<open>goto bail\<close> with
  the error and the value of \<open>pOpenFile\<close> at that point; \<open>ForkNull\<close> is a call through a
  null pointer.
\<close>

datatype ForkOutcome =
    ForkDone "DriverCall list"
  | ForkBail DIError "nat option" "DriverCall list"
  | ForkNull "DriverCall list"

definition AddForksToDisk_fork ::
  "Driver \<Rightarrow> nat option \<Rightarrow> bool \<Rightarrow> 8 word list option \<Rightarrow> int \<Rightarrow> DriverCall list \<Rightarrow> ForkOutcome" where
  "AddForksToDisk_fork drv pNewFile rsrcFork buf len tr =
     (case pNewFile of
        None \<Rightarrow> ForkNull tr
      | Some f \<Rightarrow>
          (case Open drv tr f rsrcFork of
             (dierr, pOpenFile) \<Rightarrow>
               if dierr \<noteq> kDIErrNone then ForkBail dierr pOpenFile (tr @ [OpenCall f rsrcFork])
               else
                 (case pOpenFile of
                    None \<Rightarrow> ForkNull (tr @ [OpenCall f rsrcFork])
                  | Some fd \<Rightarrow>
                      if Write drv (tr @ [OpenCall f rsrcFork]) fd buf len \<noteq> kDIErrNone then
                        ForkBail (Write drv (tr @ [OpenCall f rsrcFork]) fd buf len) (Some fd)
                          (tr @ [OpenCall f rsrcFork, WriteCall fd buf len])
                      else if Close drv (tr @ [OpenCall f rsrcFork, WriteCall fd buf len]) fd
                              \<noteq> kDIErrNone then
                        ForkBail (Close drv (tr @ [OpenCall f rsrcFork, WriteCall fd buf len]) fd)
                          (Some fd)
                          (tr @ [OpenCall f rsrcFork, WriteCall fd buf len, CloseCall fd])
                      else
                        ForkDone (tr @ [OpenCall f rsrcFork, WriteCall fd buf len, CloseCall fd]))))"

text \<open>"don't try to put resource forks onto a DOS disk": the new parameters, the new
  \<open>rsrcLen\<close>, and whether nothing is left to write.\<close>

definition AddForksToDisk_dropRsrc ::
  "Externals \<Rightarrow> FSFormat \<Rightarrow> CreateParms \<Rightarrow> int \<Rightarrow> int \<Rightarrow> CreateParms \<times> int \<times> bool" where
  "AddForksToDisk_dropRsrc ext fsFormat parmCopy dataLen rsrcLen =
     (if \<not> HasResourceForks ext fsFormat then
        (if rsrcLen \<ge> 0 then
           (parmCopy \<lparr> storageType := kNuStorageSeedling \<rparr>, -1, dataLen < 0)
         else (parmCopy, rsrcLen, False))
      else (parmCopy, rsrcLen, False))"

definition kFileTypeBIN :: int where "kFileTypeBIN = 0x06"
definition kFileTypeINT :: int where "kFileTypeINT = 0xfa"
definition kFileTypeBAS :: int where "kFileTypeBAS = 0xfc"

text \<open>"quick kluge to get the right file type on large DOS files".\<close>

definition AddForksToDisk_dosType ::
  "Externals \<Rightarrow> FSFormat \<Rightarrow> CreateParms \<Rightarrow> int \<Rightarrow> CreateParms" where
  "AddForksToDisk_dosType ext fsFormat parmCopy dataLen =
     (if UsesDOSFileStructure ext fsFormat \<and> dataLen \<ge> 65536 then
        (if fileType parmCopy = kFileTypeBIN \<or> fileType parmCopy = kFileTypeINT \<or>
            fileType parmCopy = kFileTypeBAS
         then parmCopy \<lparr> fileType := 0xf2 \<rparr> else parmCopy)
      else parmCopy)"

text \<open>From the \<open>CreateFile\<close> call for a file to the end of the function.\<close>

definition AddForksToDisk_create ::
  "Driver \<Rightarrow> CreateParms \<Rightarrow> 8 word list option \<Rightarrow> int \<Rightarrow> 8 word list option \<Rightarrow> int \<Rightarrow>
   DriverCall list \<Rightarrow> AddResult \<times> DriverCall list" where
  "AddForksToDisk_create drv parmCopy dataBuf dataLen rsrcBuf rsrcLen tr =
     (case CreateFile drv tr parmCopy of
        (dierr, pNewFile) \<Rightarrow>
          if dierr \<noteq> kDIErrNone then
            AddForksToDisk_bail dierr pNewFile None (tr @ [CreateFileCall parmCopy])
          else
            (case (if dataLen > 0 \<or> (dataLen = 0 \<and> pNewFile \<noteq> None) then
                     AddForksToDisk_fork drv pNewFile False
                       (Some (case dataBuf of Some b \<Rightarrow> b | None \<Rightarrow> [0])) dataLen
                       (tr @ [CreateFileCall parmCopy])
                   else ForkDone (tr @ [CreateFileCall parmCopy])) of
               ForkNull tr1 \<Rightarrow> (NullDereference, tr1)
             | ForkBail dierr1 pOpenFile tr1 \<Rightarrow> AddForksToDisk_bail dierr1 pNewFile pOpenFile tr1
             | ForkDone tr1 \<Rightarrow>
                 (case (if rsrcLen > 0 then
                          AddForksToDisk_fork drv pNewFile True rsrcBuf rsrcLen tr1
                        else ForkDone tr1) of
                    ForkNull tr2 \<Rightarrow> (NullDereference, tr2)
                  | ForkBail dierr2 pOpenFile tr2 \<Rightarrow>
                      AddForksToDisk_bail dierr2 pNewFile pOpenFile tr2
                  | ForkDone tr2 \<Rightarrow> AddForksToDisk_bail kDIErrNone pNewFile None tr2)))"

definition AddForksToDisk ::
  "Externals \<Rightarrow> FSFormat \<Rightarrow> Driver \<Rightarrow> CreateParms \<Rightarrow> 8 word list option \<Rightarrow> int \<Rightarrow>
   8 word list option \<Rightarrow> int \<Rightarrow> DriverCall list \<Rightarrow> AddResult \<times> DriverCall list" where
  "AddForksToDisk ext fsFormat drv pParms dataBuf dataLen rsrcBuf rsrcLen tr =
     (case AddForksToDisk_emptyFolder ext pParms dataLen of
        (parmCopy, dataLen1) \<Rightarrow>
          if storageType parmCopy = kNuStorageDirectory then
            (if IsHierarchical ext fsFormat then
               (case CreateFile drv tr parmCopy of
                  (dierr, pDummyFile) \<Rightarrow>
                    AddForksToDisk_bail
                      (if dierr = kDIErrDirectoryExists then kDIErrNone else dierr)
                      None None (tr @ [CreateFileCall parmCopy]))
             else AddForksToDisk_bail kDIErrNone None None tr)
          else
            (case AddForksToDisk_dropRsrc ext fsFormat parmCopy dataLen1 rsrcLen of
               (parmCopy2, rsrcLen1, nothingLeft) \<Rightarrow>
                 if nothingLeft then AddForksToDisk_bail kDIErrNone None None tr
                 else
                   AddForksToDisk_create drv
                     (AddForksToDisk_dosType ext fsFormat parmCopy2 dataLen1)
                     dataBuf dataLen1 rsrcBuf rsrcLen1 tr))"

text \<open>Example values of the parameters, of a driver and of a request, for concrete runs.\<close>

definition exExt :: Externals where
  "exExt = \<lparr> UsesDOSFileStructure = (\<lambda>f. f = kFormatDOS33 \<or> f = kFormatDOS32),
     IsHierarchical = (\<lambda>f. f = kFormatProDOS \<or> f = kFormatMacHFS),
     HasResourceForks = (\<lambda>f. f = kFormatProDOS \<or> f = kFormatMacHFS),
     kEmptyFolderMarker = ''.$$EmptyFolder'',
     A2FileProDOS_kAccessInvisible = 0x04,
     GenericEntry_kAccessInvisible = 0x04,
     kDefaultStoredFssep = CHR '':'',
     InjectLowercase = (\<lambda>s. s),
     DetermineConversion = (\<lambda>c. (kConvertEOLOn, kEOLLF)),
     kDateNone = -2,
     kFileTypeTXT = 0x04,
     kFileTypeSRC = 0xb0,
     DateTimeToSeconds = (\<lambda>t. t),
     UNIXTimeToDateTime = (\<lambda>t. t) \<rparr>"

definition exDrv :: Driver where
  "exDrv = \<lparr> CreateFile = (\<lambda>tr p. (kDIErrNone, Some 1)),
     Open = (\<lambda>tr f r. (kDIErrNone, Some 7)),
     Write = (\<lambda>tr fd b n. kDIErrNone),
     Close = (\<lambda>tr fd. kDIErrNone),
     DeleteFile = (\<lambda>tr f. kDIErrNone) \<rparr>"

definition exDrvWriteFails :: Driver where
  "exDrvWriteFails = \<lparr> CreateFile = (\<lambda>tr p. (kDIErrNone, Some 1)),
     Open = (\<lambda>tr f r. (kDIErrNone, Some 7)),
     Write = (\<lambda>tr fd b n. kDIErrOther 5),
     Close = (\<lambda>tr fd. kDIErrNone),
     DeleteFile = (\<lambda>tr f. kDIErrOther 9) \<rparr>"

definition exParms :: "string \<Rightarrow> NuStorageType \<Rightarrow> int \<Rightarrow> CreateParms" where
  "exParms name st ft = \<lparr> pathName = name, fssep = CHR '':'', storageType = st, fileType = ft,
     auxType = 0, access = 0xe7, createWhen = 0, modWhen = 0 \<rparr>"

text \<open>The error the driver returns for a call made after the calls \<open>pre\<close>.\<close>

fun answer :: "Driver \<Rightarrow> DriverCall list \<Rightarrow> DriverCall \<Rightarrow> DIError" where
  "answer drv pre (CreateFileCall p) = fst (CreateFile drv pre p)"
| "answer drv pre (OpenCall f r) = fst (Open drv pre f r)"
| "answer drv pre (WriteCall fd b n) = Write drv pre fd b n"
| "answer drv pre (CloseCall fd) = Close drv pre fd"
| "answer drv pre (DeleteFileCall f) = DeleteFile drv pre f"

fun is_fork_call :: "DriverCall \<Rightarrow> bool" where
  "is_fork_call (OpenCall f r) = True"
| "is_fork_call (WriteCall fd b n) = True"
| "is_fork_call (CloseCall fd) = True"
| "is_fork_call c = False"

text \<open>
  Every fork call in \<open>calls\<close>, made one after the other after the calls \<open>pre\<close>, was
  answered with \<open>kDIErrNone\<close>.
\<close>

fun fork_calls_succeeded :: "Driver \<Rightarrow> DriverCall list \<Rightarrow> DriverCall list \<Rightarrow> bool" where
  "fork_calls_succeeded drv pre [] = True"
| "fork_calls_succeeded drv pre (c # cs) =
     ((if is_fork_call c then answer drv pre c = kDIErrNone else True) \<and>
      fork_calls_succeeded drv (pre @ [c]) cs)"

subsection \<open>ProcessFileAddData\<close>

datatype AddFilesConvEOL = kConvEOLNone | kConvEOLType | kConvEOLAuto | kConvEOLAll

definition ConvertFDToCP :: "Externals \<Rightarrow> FileDetails \<Rightarrow> CreateParms" where
  "ConvertFDToCP ext pDetails =
     \<lparr> pathName = ''XYZZY-DiskArchive'',
       fssep = fileSysInfo pDetails,
       storageType = fd_storageType pDetails,
       fileType = fd_fileType pDetails,
       auxType = extraType pDetails,
       access = fd_access pDetails,
       createWhen = DateTimeToSeconds ext (fd_createWhen pDetails),
       modWhen = DateTimeToSeconds ext (fd_modWhen pDetails) \<rparr>"

text \<open>The messages \<open>ProcessFileAddData\<close> can return; \<open>LoadFileFailed\<close> passes on the message of \<open>LoadFile\<close>.\<close>

datatype ProcessMsg =
    InternalError
  | AddOtherDiskError
  | LoadFileFailed LoadError
  | UnableToAddToImage string DIError

datatype ProcessResult = ErrMsg "ProcessMsg option" | ProcessNullDereference

text \<open>
  The two \<open>switch\<close> statements on the entry kinds of a node and of its other fork: the
  details of the data fork and of the resource fork, or the message returned at once.
\<close>

definition ProcessFileAddData_otherFork ::
  "FileAddData \<Rightarrow> FileDetails option \<Rightarrow> FileDetails option \<Rightarrow>
   ProcessMsg + (FileDetails option \<times> FileDetails option)" where
  "ProcessFileAddData_otherFork pData pDataDetails pRsrcDetails =
     (case GetOtherFork pData of
        None \<Rightarrow> Inr (pDataDetails, pRsrcDetails)
      | Some other \<Rightarrow>
          (case entryKind (GetDetails other) of
             kFileKindDataFork \<Rightarrow> Inr (Some (GetDetails other), pRsrcDetails)
           | kFileKindRsrcFork \<Rightarrow> Inr (pDataDetails, Some (GetDetails other))
           | kFileKindDiskImage \<Rightarrow> Inl AddOtherDiskError
           | _ \<Rightarrow> Inl InternalError))"

definition ProcessFileAddData_forks ::
  "FileAddData \<Rightarrow> ProcessMsg + (FileDetails option \<times> FileDetails option)" where
  "ProcessFileAddData_forks pData =
     (case entryKind (GetDetails pData) of
        kFileKindDataFork \<Rightarrow> ProcessFileAddData_otherFork pData (Some (GetDetails pData)) None
      | kFileKindRsrcFork \<Rightarrow> ProcessFileAddData_otherFork pData None (Some (GetDetails pData))
      | kFileKindDiskImage \<Rightarrow> ProcessFileAddData_otherFork pData (Some (GetDetails pData)) None
      | _ \<Rightarrow> Inl InternalError)"

text \<open>
  The value of \<open>convEOL\<close> when the data fork of a node is loaded: set before the loop from
  \<open>addOptsConvEOL\<close>, and for \<open>kConvEOLType\<close> set again from the file type on every pass.
\<close>

definition ProcessFileAddData_convEOL ::
  "Externals \<Rightarrow> AddFilesConvEOL \<Rightarrow> FileDetails \<Rightarrow> ConvertEOL" where
  "ProcessFileAddData_convEOL ext addOptsConvEOL pDataDetails =
     (case addOptsConvEOL of
        kConvEOLNone \<Rightarrow> kConvertEOLOff
      | kConvEOLType \<Rightarrow>
          if fd_fileType pDataDetails = kFileTypeTXT ext \<or>
             fd_fileType pDataDetails = kFileTypeSRC ext
          then kConvertEOLOn else kConvertEOLOff
      | kConvEOLAuto \<Rightarrow> kConvertEOLAuto
      | kConvEOLAll \<Rightarrow> kConvertEOLOn)"

text \<open>One pass of the \<open>while (pData != NULL)\<close> loop.\<close>

definition ProcessFileAddData_node ::
  "Externals \<Rightarrow> (string \<Rightarrow> HostFile option) \<Rightarrow> FSFormat \<Rightarrow> Driver \<Rightarrow> AddFilesConvEOL \<Rightarrow>
   FileAddData \<Rightarrow> DriverCall list \<Rightarrow> ProcessResult \<times> DriverCall list" where
  "ProcessFileAddData_node ext hostfs fsFormat drv addOptsConvEOL pData tr =
     (case ProcessFileAddData_forks pData of
        Inl msg \<Rightarrow> (ErrMsg (Some msg), tr)
      | Inr (pDataDetails, pRsrcDetails) \<Rightarrow>
          let parms = (ConvertFDToCP ext (GetDetails pData))
                \<lparr> storageType := (if pRsrcDetails \<noteq> None then kNuStorageExtended
                                   else kNuStorageSeedling),
                  pathName := GetFSNormalPath pData \<rparr>
          in
          (case (case pDataDetails of
                   None \<Rightarrow> Inr (None, -1)
                 | Some dd \<Rightarrow>
                     LoadFile (DetermineConversion ext) hostfs (origName dd)
                       (ProcessFileAddData_convEOL ext addOptsConvEOL dd)
                       (if UsesDOSFileStructure ext fsFormat then kConvertHAOn
                        else kConvertHAOff)) of
             Inl err \<Rightarrow> (ErrMsg (Some (LoadFileFailed err)), tr)
           | Inr (dataBuf, dataLen) \<Rightarrow>
               (case (case pRsrcDetails of
                        None \<Rightarrow> Inr (None, -1)
                      | Some rd \<Rightarrow>
                          LoadFile (DetermineConversion ext) hostfs (origName rd)
                            kConvertEOLOff kConvertHAOff) of
                  Inl err \<Rightarrow> (ErrMsg (Some (LoadFileFailed err)), tr)
                | Inr (rsrcBuf, rsrcLen) \<Rightarrow>
                    (case AddForksToDisk ext fsFormat drv parms dataBuf dataLen
                            rsrcBuf rsrcLen tr of
                       (NullDereference, tr') \<Rightarrow> (ProcessNullDereference, tr')
                     | (Returned dierr, tr') \<Rightarrow>
                         if dierr \<noteq> kDIErrNone
                         then (ErrMsg (Some (UnableToAddToImage (pathName parms) dierr)), tr')
                         else (ErrMsg None, tr')))))"

fun ProcessFileAddData ::
  "Externals \<Rightarrow> (string \<Rightarrow> HostFile option) \<Rightarrow> FSFormat \<Rightarrow> Driver \<Rightarrow> AddFilesConvEOL \<Rightarrow>
   FileAddData list \<Rightarrow> DriverCall list \<Rightarrow> ProcessResult \<times> DriverCall list" where
  "ProcessFileAddData ext hostfs fsFormat drv addOptsConvEOL [] tr = (ErrMsg None, tr)"
| "ProcessFileAddData ext hostfs fsFormat drv addOptsConvEOL (pData # rest) tr =
     (case ProcessFileAddData_node ext hostfs fsFormat drv addOptsConvEOL pData tr of
        (ErrMsg None, tr') \<Rightarrow> ProcessFileAddData ext hostfs fsFormat drv addOptsConvEOL rest tr'
      | (res, tr') \<Rightarrow> (res, tr'))"

subsection \<open>DeleteSelection\<close>

text \<open>
  \<open>wcsicmp\<close> compares two strings after lower-casing each character; the sign of the
  result is what \<open>qsort\<close> uses. Letters outside \<open>A\<close>..\<open>Z\<close> are left alone.
\<close>

definition towlower :: "char \<Rightarrow> char" where
  "towlower c =
     (if (65 :: nat) \<le> of_char c \<and> of_char c \<le> (90 :: nat)
      then char_of (of_char c + (32 :: nat)) else c)"

fun wcsicmp :: "string \<Rightarrow> string \<Rightarrow> int" where
  "wcsicmp [] [] = 0"
| "wcsicmp [] (y # ys) = -1"
| "wcsicmp (x # xs) [] = 1"
| "wcsicmp (x # xs) (y # ys) =
     (if towlower x = towlower y then wcsicmp xs ys
      else int (of_char (towlower x)) - int (of_char (towlower y)))"

text \<open>
  What \<open>DeleteSelection\<close> reads of an entry of the selection: its display name and
  its \<open>A2File\<close> handle.
\<close>

record SelEntry =
  GetDisplayName :: string
  GetA2File :: nat

definition CompareDisplayNamesDesc :: "SelEntry \<Rightarrow> SelEntry \<Rightarrow> int" where
  "CompareDisplayNamesDesc pEntry1 pEntry2 =
     wcsicmp (GetDisplayName pEntry2) (GetDisplayName pEntry1)"

text \<open>
  The \<open>for\<close> loop over the sorted array. \<open>rw\<close> is \<open>GetReadWriteSupported\<close> of the
  \<open>DiskFS\<close> that owns the file. The result is \<open>retVal\<close> before the reload and the driver
  calls made.
\<close>

fun DeleteSelection_loop ::
  "(nat \<Rightarrow> bool) \<Rightarrow> Driver \<Rightarrow> SelEntry list \<Rightarrow> DriverCall list \<Rightarrow> bool \<times> DriverCall list" where
  "DeleteSelection_loop rw drv [] tr = (True, tr)"
| "DeleteSelection_loop rw drv (pEntry # rest) tr =
     (if \<not> rw (GetA2File pEntry) then (False, tr)
      else if DeleteFile drv tr (GetA2File pEntry) \<noteq> kDIErrNone then
        (False, tr @ [DeleteFileCall (GetA2File pEntry)])
      else DeleteSelection_loop rw drv rest (tr @ [DeleteFileCall (GetA2File pEntry)]))"

text \<open>
  \<open>qsort\<close> is the C library's; it is a parameter, and the theorems assume of it only what
  the C standard promises for the array it is given. \<open>reloadOK\<close> is whether
  \<open>InternalReload\<close> returns 0.
\<close>

definition DeleteSelection ::
  "((SelEntry \<Rightarrow> SelEntry \<Rightarrow> int) \<Rightarrow> SelEntry list \<Rightarrow> SelEntry list) \<Rightarrow> (nat \<Rightarrow> bool) \<Rightarrow>
   Driver \<Rightarrow> bool \<Rightarrow> SelEntry list \<Rightarrow> DriverCall list \<Rightarrow> bool \<times> DriverCall list" where
  "DeleteSelection qsort rw drv reloadOK pSelSet tr =
     (let entryArray = qsort CompareDisplayNamesDesc pSelSet in
      case DeleteSelection_loop rw drv entryArray tr of
        (retVal, tr') \<Rightarrow> (if reloadOK then retVal else False, tr'))"

text \<open>What the C standard promises of \<open>qsort\<close> on one array: the result is a rearrangement of
  the array in which no element compares greater than a later one.\<close>

definition qsort_sorts ::
  "((SelEntry \<Rightarrow> SelEntry \<Rightarrow> int) \<Rightarrow> SelEntry list \<Rightarrow> SelEntry list) \<Rightarrow>
   (SelEntry \<Rightarrow> SelEntry \<Rightarrow> int) \<Rightarrow> SelEntry list \<Rightarrow> bool" where
  "qsort_sorts qsort cmp xs \<longleftrightarrow>
     mset (qsort cmp xs) = mset xs \<and> sorted_wrt (\<lambda>a b. cmp a b \<le> 0) (qsort cmp xs)"

text \<open>An insertion sort by a comparison function, as one \<open>qsort\<close> to run examples with.\<close>

fun exInsert :: "('a \<Rightarrow> 'a \<Rightarrow> int) \<Rightarrow> 'a \<Rightarrow> 'a list \<Rightarrow> 'a list" where
  "exInsert cmp x [] = [x]"
| "exInsert cmp x (y # ys) = (if cmp x y \<le> 0 then x # y # ys else y # exInsert cmp x ys)"

fun exQsort :: "('a \<Rightarrow> 'a \<Rightarrow> int) \<Rightarrow> 'a list \<Rightarrow> 'a list" where
  "exQsort cmp [] = []"
| "exQsort cmp (x # xs) = exInsert cmp x (exQsort cmp xs)"

definition exSel :: "string \<Rightarrow> nat \<Rightarrow> SelEntry" where
  "exSel n h = \<lparr> GetDisplayName = n, GetA2File = h \<rparr>"

subsection \<open>LoadDiskFSContents\<close>

datatype Quality = kQualityGood | kQualitySuspicious | kQualityDamaged

text \<open>What the loader reads of a file of the driver.\<close>

record A2File =
  GetPathName :: string
  GetFSFormat :: FSFormat
  GetFssep :: char
  GetFileType :: int
  GetAuxType :: int
  GetAccess :: "32 word"
  GetCreateWhen :: int
  GetModWhen :: int
  IsVolumeDirectory :: bool
  IsDirectory :: bool
  GetDataLength :: int
  GetRsrcLength :: int
  GetDataSparseLength :: int
  GetRsrcSparseLength :: int
  GetQuality :: Quality

text \<open>
  A filesystem of the driver: its volume name (\<open>None\<close> for \<open>NULL\<close>), its files in the
  order of \<open>GetNextFile\<close>, and the filesystems of its sub-volumes in the order of
  \<open>GetNextSubVolume\<close>.
\<close>

datatype DiskFS =
  DiskFS (GetVolumeName: "string option") (GetFiles: "A2File list") (GetSubVolumes: "DiskFS list")

datatype RecordKind =
    kRecordKindUnknown
  | kRecordKindFile
  | kRecordKindForkedFile
  | kRecordKindDirectory
  | kRecordKindVolumeDir

record DiskEntry =
  fPathName :: string
  fSubVolName :: "string option"
  fFssep :: char
  fFileType :: int
  fAuxType :: int
  fAccess :: "32 word"
  fCreateWhen :: int
  fModWhen :: int
  fSourceFS :: FSFormat
  fHasDataFork :: bool
  fHasRsrcFork :: bool
  fRecordKind :: RecordKind
  fDataForkLen :: int
  fRsrcForkLen :: int
  fCompressedLen :: int
  fFormatStr :: string
  fDamaged :: bool
  fSuspicious :: bool

text \<open>
  Modelled from the spec: the constructor of \<open>DiskEntry\<close> (and of its base class
  \<open>GenericEntry\<close>), which is declared in another file. The specification's data model
  gives an entry's resource-fork length as \<open>-1\<close> when the fork is absent and its dates
  as "no date" until set. Of the values given here the loader keeps only the resource-fork
  length and the resource-fork flag (unless the file is forked) and the sub-volume name
  (at the top level); it sets every other field.
\<close>

definition DiskEntry_new :: "Externals \<Rightarrow> DiskEntry" where
  "DiskEntry_new ext =
     \<lparr> fPathName = [], fSubVolName = None, fFssep = CHR 0x00, fFileType = 0, fAuxType = 0,
       fAccess = 0, fCreateWhen = kDateNone ext, fModWhen = kDateNone ext,
       fSourceFS = kFormatUnknown, fHasDataFork = False, fHasRsrcFork = False,
       fRecordKind = kRecordKindUnknown, fDataForkLen = 0, fRsrcForkLen = -1,
       fCompressedLen = 0, fFormatStr = ''Unknown'', fDamaged = False, fSuspicious = False \<rparr>"

definition kBlankFileName :: string where
  "kBlankFileName = ''<blank filename>''"

text \<open>The \<open>if\<close> chain that sets the record kind and the lengths.\<close>

definition LoadDiskFSContents_kind :: "A2File \<Rightarrow> DiskEntry \<Rightarrow> DiskEntry" where
  "LoadDiskFSContents_kind pFile pNewEntry =
     (if IsVolumeDirectory pFile then
        pNewEntry \<lparr> fRecordKind := kRecordKindVolumeDir,
                    fDataForkLen := GetDataLength pFile,
                    fCompressedLen := GetDataLength pFile \<rparr>
      else if IsDirectory pFile then
        pNewEntry \<lparr> fRecordKind := kRecordKindDirectory,
                    fDataForkLen := GetDataLength pFile,
                    fCompressedLen := GetDataLength pFile \<rparr>
      else if GetRsrcLength pFile \<ge> 0 then
        pNewEntry \<lparr> fRecordKind := kRecordKindForkedFile,
                    fDataForkLen := GetDataLength pFile,
                    fRsrcForkLen := GetRsrcLength pFile,
                    fCompressedLen := GetDataSparseLength pFile + GetRsrcSparseLength pFile,
                    fHasRsrcFork := True \<rparr>
      else
        pNewEntry \<lparr> fRecordKind := kRecordKindFile,
                    fDataForkLen := GetDataLength pFile,
                    fCompressedLen := GetDataSparseLength pFile \<rparr>)"

fun LoadDiskFSContents_formatStr :: "FSFormat \<Rightarrow> string" where
  "LoadDiskFSContents_formatStr kFormatDOS33 = ''DOS''"
| "LoadDiskFSContents_formatStr kFormatDOS32 = ''DOS''"
| "LoadDiskFSContents_formatStr kFormatUNIDOS = ''DOS''"
| "LoadDiskFSContents_formatStr kFormatGutenberg = ''DOS''"
| "LoadDiskFSContents_formatStr kFormatProDOS = ''ProDOS''"
| "LoadDiskFSContents_formatStr kFormatPascal = ''Pascal''"
| "LoadDiskFSContents_formatStr kFormatCPM = ''CP/M''"
| "LoadDiskFSContents_formatStr kFormatMSDOS = ''MS-DOS''"
| "LoadDiskFSContents_formatStr kFormatRDOS33 = ''RDOS''"
| "LoadDiskFSContents_formatStr kFormatRDOS32 = ''RDOS''"
| "LoadDiskFSContents_formatStr kFormatRDOS3 = ''RDOS''"
| "LoadDiskFSContents_formatStr kFormatMacHFS = ''HFS''"
| "LoadDiskFSContents_formatStr fmt = ''???''"

text \<open>One pass of the \<open>while (pFile != NULL)\<close> loop: the entry made for a file.\<close>

definition LoadDiskFSContents_entry :: "Externals \<Rightarrow> bool \<Rightarrow> string \<Rightarrow> A2File \<Rightarrow> DiskEntry" where
  "LoadDiskFSContents_entry ext wantCoerceDOSFilenames volName pFile =
     (let path0 = (if GetPathName pFile = [] then kBlankFileName else GetPathName pFile);
          path = (if UsesDOSFileStructure ext (GetFSFormat pFile) \<and> wantCoerceDOSFilenames
                  then InjectLowercase ext path0 else path0);
          pNewEntry = (DiskEntry_new ext)
            \<lparr> fPathName := path,
              fSubVolName := (if volName \<noteq> [] then Some volName
                              else fSubVolName (DiskEntry_new ext)),
              fFssep := GetFssep pFile,
              fFileType := GetFileType pFile,
              fAuxType := GetAuxType pFile,
              fAccess := GetAccess pFile,
              fCreateWhen := (if GetCreateWhen pFile = 0 then kDateNone ext
                              else GetCreateWhen pFile),
              fModWhen := (if GetModWhen pFile = 0 then kDateNone ext else GetModWhen pFile),
              fSourceFS := GetFSFormat pFile,
              fHasDataFork := True \<rparr>
      in (LoadDiskFSContents_kind pFile pNewEntry)
           \<lparr> fFormatStr := LoadDiskFSContents_formatStr (GetFSFormat pFile),
             fDamaged := (GetQuality pFile = kQualityDamaged),
             fSuspicious := (GetQuality pFile = kQualitySuspicious) \<rparr>)"

text \<open>The name under which a sub-volume is loaded: \<open>concatSubVolName\<close>.\<close>

definition subVolName_or_placeholder :: "string option \<Rightarrow> string" where
  "subVolName_or_placeholder subVolName = (case subVolName of None \<Rightarrow> ''+++'' | Some n \<Rightarrow> n)"

definition LoadDiskFSContents_concatSubVolName :: "string \<Rightarrow> string option \<Rightarrow> string" where
  "LoadDiskFSContents_concatSubVolName volName subVolName =
     (if volName = [] then ''_'' @ subVolName_or_placeholder subVolName
      else volName @ ''_'' @ subVolName_or_placeholder subVolName)"

text \<open>
  The entries added to the archive, in order: the files of this level, then each
  sub-volume in turn. Nothing in the model makes the function return nonzero.
\<close>

fun LoadDiskFSContents :: "Externals \<Rightarrow> bool \<Rightarrow> DiskFS \<Rightarrow> string \<Rightarrow> DiskEntry list" where
  "LoadDiskFSContents ext wantCoerceDOSFilenames (DiskFS name files subVolumes) volName =
     map (LoadDiskFSContents_entry ext wantCoerceDOSFilenames volName) files @
     concat (map (\<lambda>pSubVol.
                    LoadDiskFSContents ext wantCoerceDOSFilenames pSubVol
                      (LoadDiskFSContents_concatSubVolName volName (GetVolumeName pSubVol)))
              subVolumes)"

definition exFile :: "string \<Rightarrow> bool \<Rightarrow> bool \<Rightarrow> int \<Rightarrow> A2File" where
  "exFile n vol dir rsrc =
     \<lparr> GetPathName = n, GetFSFormat = kFormatProDOS, GetFssep = CHR '':'', GetFileType = 6,
       GetAuxType = 0, GetAccess = 0xc3, GetCreateWhen = 0, GetModWhen = 100,
       IsVolumeDirectory = vol, IsDirectory = dir, GetDataLength = 512, GetRsrcLength = rsrc,
       GetDataSparseLength = 512, GetRsrcSparseLength = 0, GetQuality = kQualityGood \<rparr>"

subsection \<open>XferSelection\<close>

text \<open>
  What one pass of the loop of \<open>XferSelection\<close> decides before anything is extracted or
  handed to the target: skip the entry (\<open>continue\<close>), hand over a request made up on the
  spot, with its \<open>dataLen\<close> and \<open>rsrcLen\<close>, or go on to extract the forks of a file under
  the given name.
\<close>

datatype XferStep =
    XferSkip
  | XferRequest FileDetails int int
  | XferExtract string

definition XferSelection_fixedPathName :: "Externals \<Rightarrow> DiskEntry \<Rightarrow> string" where
  "XferSelection_fixedPathName ext pEntry =
     (let fixed0 = (if fPathName pEntry = [] then ''(no filename)'' else fPathName pEntry);
          fixed1 = (if fSourceFS pEntry \<noteq> kFormatProDOS
                    then map (\<lambda>ch. if ch = kDefaultStoredFssep ext then CHR ''.'' else ch) fixed0
                    else fixed0)
      in case fSubVolName pEntry of
           None \<Rightarrow> fixed1
         | Some tmpStr \<Rightarrow> tmpStr @ [kDefaultStoredFssep ext] @ fixed1)"

text \<open>The assignments after the label \<open>have_stuff2\<close>.\<close>

definition XferSelection_have_stuff2 :: "Externals \<Rightarrow> DiskEntry \<Rightarrow> FileDetails \<Rightarrow> FileDetails" where
  "XferSelection_have_stuff2 ext pEntry fileDetails =
     fileDetails \<lparr> fileSysFmt := fSourceFS pEntry,
                   fileSysInfo := kDefaultStoredFssep ext,
                   extraType := fAuxType pEntry,
                   fd_storageType := kNuStorageUnknown,
                   fd_modWhen := UNIXTimeToDateTime ext (fModWhen pEntry),
                   fd_createWhen := UNIXTimeToDateTime ext (fCreateWhen pEntry) \<rparr>"

text \<open>
  \<open>CountMatchingPrefix\<close> belongs to the selection set and is a parameter; \<open>fileDetails\<close>
  is the variable declared before the loop, with whatever the previous pass left in it.
\<close>

definition XferSelection_entry ::
  "Externals \<Rightarrow> bool \<Rightarrow> (string \<Rightarrow> int) \<Rightarrow> FileDetails \<Rightarrow> DiskEntry \<Rightarrow> XferStep" where
  "XferSelection_entry ext fPreserveEmptyFolders CountMatchingPrefix fileDetails pEntry =
     (if fDamaged pEntry then XferSkip
      else
        let fixedPathName = XferSelection_fixedPathName ext pEntry in
        if fRecordKind pEntry = kRecordKindVolumeDir then XferSkip
        else if fRecordKind pEntry = kRecordKindDirectory then
          (if fPreserveEmptyFolders \<and>
              CountMatchingPrefix (fixedPathName @ [kDefaultStoredFssep ext]) = 0
           then
             XferRequest
               (XferSelection_have_stuff2 ext pEntry
                  (fileDetails \<lparr> entryKind := kFileKindDataFork,
                                 storageName := fixedPathName @ [kDefaultStoredFssep ext]
                                                  @ kEmptyFolderMarker ext,
                                 fd_fileType := 0,
                                 fd_access := fAccess pEntry OR GenericEntry_kAccessInvisible ext \<rparr>))
               0 (-1)
           else XferSkip)
        else XferExtract fixedPathName)"

definition exEntry :: "string \<Rightarrow> RecordKind \<Rightarrow> DiskEntry" where
  "exEntry n k =
     \<lparr> fPathName = n, fSubVolName = None, fFssep = CHR '':'', fFileType = 0x0f, fAuxType = 0,
       fAccess = 0xc3, fCreateWhen = -2, fModWhen = 100, fSourceFS = kFormatProDOS,
       fHasDataFork = True, fHasRsrcFork = False, fRecordKind = k, fDataForkLen = 512,
       fRsrcForkLen = -1, fCompressedLen = 512, fFormatStr = ''ProDOS'', fDamaged = False,
       fSuspicious = False \<rparr>"

definition exVolume :: DiskFS where
  "exVolume = DiskFS (Some ''ROOT'')
     [exFile ''ROOT'' True True (-1), exFile ''DIR'' False True (-1)]
     [DiskFS (Some ''SUB'') [exFile ''FORKED'' False False 0, exFile ''PLAIN'' False False (-1)] []]"

section \<open>Properties\<close>

subsection \<open>Fork pairing\<close>

lemma search_keeps_paired:
  "AddToAddDataList_search xs d = Some ys \<Longrightarrow> i < length xs \<Longrightarrow>
   GetOtherFork (xs ! i) \<noteq> None \<Longrightarrow> ys ! i = xs ! i"
proof (induction xs arbitrary: ys i)
  case Nil
  then show ?case by simp
next
  case (Cons x xs)
  then show ?case
    by (cases i) (auto simp: Let_def split: if_splits)
qed

lemma search_keeps_image:
  "AddToAddDataList_search xs d = Some ys \<Longrightarrow> i < length xs \<Longrightarrow>
   entryKind (GetDetails (xs ! i)) \<noteq> kFileKindDataFork \<Longrightarrow>
   entryKind (GetDetails (xs ! i)) \<noteq> kFileKindRsrcFork \<Longrightarrow> ys ! i = xs ! i"
proof (induction xs arbitrary: ys i)
  case Nil
  then show ?case by simp
next
  case (Cons x xs)
  then show ?case
    by (cases i) (auto simp: Let_def split: if_splits)
qed

lemma search_not_fork:
  "entryKind (GetDetails d) \<noteq> kFileKindDataFork \<Longrightarrow>
   entryKind (GetDetails d) \<noteq> kFileKindRsrcFork \<Longrightarrow> AddToAddDataList_search xs d = None"
  by (induction xs) (auto simp: Let_def)

lemma add_keeps_paired:
  "i < length xs \<Longrightarrow> GetOtherFork (xs ! i) \<noteq> None \<Longrightarrow> AddToAddDataList xs d ! i = xs ! i"
  by (auto simp: AddToAddDataList_def nth_append split: option.splits dest: search_keeps_paired)

lemma add_keeps_image:
  "i < length xs \<Longrightarrow> entryKind (GetDetails (xs ! i)) = kFileKindDiskImage \<Longrightarrow>
   AddToAddDataList xs d ! i = xs ! i"
  by (auto simp: AddToAddDataList_def nth_append split: option.splits dest: search_keeps_image)

lemma add_image:
  "entryKind (GetDetails d) = kFileKindDiskImage \<Longrightarrow> AddToAddDataList xs d = xs @ [d]"
  by (simp add: AddToAddDataList_def search_not_fork)

lemma search_first_match:
  "AddToAddDataList_search xs d = None \<and> (\<forall>x \<in> set xs. \<not> pairs_with x d) \<or>
   (\<exists>i < length xs. pairs_with (xs ! i) d \<and> (\<forall>j < i. \<not> pairs_with (xs ! j) d) \<and>
      AddToAddDataList_search xs d = Some (xs[i := SetOtherFork (xs ! i) d]))"
proof (induction xs)
  case Nil
  then show ?case by simp
next
  case (Cons x xs)
  show ?case
  proof (cases "pairs_with x d")
    case True
    then have "AddToAddDataList_search (x # xs) d = Some ((x # xs)[0 := SetOtherFork x d])"
      by (auto simp: pairs_with_def complementary_def Let_def)
    with True show ?thesis by (intro disjI2 exI [of _ 0]) simp
  next
    case False
    then have step: "AddToAddDataList_search (x # xs) d
                     = map_option ((#) x) (AddToAddDataList_search xs d)"
      by (auto simp: pairs_with_def complementary_def Let_def)
    from Cons show ?thesis
    proof
      assume "AddToAddDataList_search xs d = None \<and> (\<forall>x \<in> set xs. \<not> pairs_with x d)"
      with False step show ?thesis by simp
    next
      assume "\<exists>i < length xs. pairs_with (xs ! i) d \<and> (\<forall>j < i. \<not> pairs_with (xs ! j) d) \<and>
        AddToAddDataList_search xs d = Some (xs[i := SetOtherFork (xs ! i) d])"
      then obtain i where i: "i < length xs" "pairs_with (xs ! i) d"
        "\<forall>j < i. \<not> pairs_with (xs ! j) d"
        "AddToAddDataList_search xs d = Some (xs[i := SetOtherFork (xs ! i) d])" by blast
      have "\<forall>j < Suc i. \<not> pairs_with ((x # xs) ! j) d"
        using False i(3) by (auto simp: less_Suc_eq_0_disj)
      with i step show ?thesis
        by (intro disjI2 exI [of _ "Suc i"]) simp
    qed
  qed
qed

lemma add_no_match:
  "\<forall>x \<in> set xs. \<not> pairs_with x d \<Longrightarrow> AddToAddDataList xs d = xs @ [d]"
  using search_first_match [of xs d] by (auto simp: AddToAddDataList_def)

lemma add_first_match:
  assumes "i < length xs" and "pairs_with (xs ! i) d" and "\<forall>j < i. \<not> pairs_with (xs ! j) d"
  shows "AddToAddDataList xs d = xs[i := SetOtherFork (xs ! i) d]"
proof -
  from search_first_match [of xs d] assms(1,2) obtain k where
    k: "k < length xs" "pairs_with (xs ! k) d" "\<forall>j < k. \<not> pairs_with (xs ! j) d"
    "AddToAddDataList_search xs d = Some (xs[k := SetOtherFork (xs ! k) d])"
    by (metis nth_mem)
  have "k = i"
    using assms k by (metis linorder_neqE_nat)
  with k show ?thesis by (simp add: AddToAddDataList_def)
qed

lemma add_cases:
  "AddToAddDataList xs d = xs @ [d] \<and> (\<forall>x \<in> set xs. \<not> pairs_with x d) \<or>
   (\<exists>i < length xs. pairs_with (xs ! i) d \<and> AddToAddDataList xs d = xs[i := SetOtherFork (xs ! i) d])"
  using search_first_match [of xs d] by (auto simp: AddToAddDataList_def)

lemma add_other_name_keeps:
  assumes k: "k < length L" and c: "L ! k = c" and n: "storageName (GetDetails c) = n"
    and others: "\<forall>i < length L. i \<noteq> k \<longrightarrow>
                   GetOtherFork (L ! i) \<noteq> None \<or> storageName (GetDetails (L ! i)) \<noteq> n"
    and m: "storageName (GetDetails m) \<noteq> n"
  shows "k < length (AddToAddDataList L m) \<and> AddToAddDataList L m ! k = c \<and>
         (\<forall>i < length (AddToAddDataList L m). i \<noteq> k \<longrightarrow>
            GetOtherFork (AddToAddDataList L m ! i) \<noteq> None \<or>
            storageName (GetDetails (AddToAddDataList L m ! i)) \<noteq> n)"
proof -
  from add_cases [of L m] show ?thesis
  proof (elim disjE conjE exE)
    assume a: "AddToAddDataList L m = L @ [m]"
    show ?thesis unfolding a using k c others m
      by (auto simp: nth_append less_Suc_eq)
  next
    fix i assume i: "i < length L" "pairs_with (L ! i) m"
      and a: "AddToAddDataList L m = L[i := SetOtherFork (L ! i) m]"
    from i(2) m n c have "i \<noteq> k" by (auto simp: pairs_with_def)
    then show ?thesis unfolding a using k c others i(1)
      by (auto simp: nth_list_update SetOtherFork_def)
  qed
qed

lemma fold_other_names_keep:
  assumes "k < length L" and "L ! k = c" and "storageName (GetDetails c) = n"
    and "\<forall>i < length L. i \<noteq> k \<longrightarrow>
            GetOtherFork (L ! i) \<noteq> None \<or> storageName (GetDetails (L ! i)) \<noteq> n"
    and "\<forall>m \<in> set mids. storageName (GetDetails m) \<noteq> n"
  shows "k < length (foldl AddToAddDataList L mids) \<and> foldl AddToAddDataList L mids ! k = c \<and>
         (\<forall>i < length (foldl AddToAddDataList L mids). i \<noteq> k \<longrightarrow>
            GetOtherFork (foldl AddToAddDataList L mids ! i) \<noteq> None \<or>
            storageName (GetDetails (foldl AddToAddDataList L mids ! i)) \<noteq> n)"
  using assms
proof (induction mids arbitrary: L)
  case Nil
  then show ?case by simp
next
  case (Cons m mids)
  from Cons.prems(5) have m: "storageName (GetDetails m) \<noteq> n" by simp
  from add_other_name_keeps [OF Cons.prems(1-4) m]
  have "k < length (AddToAddDataList L m)" "AddToAddDataList L m ! k = c"
    "\<forall>i < length (AddToAddDataList L m). i \<noteq> k \<longrightarrow>
            GetOtherFork (AddToAddDataList L m ! i) \<noteq> None \<or>
            storageName (GetDetails (AddToAddDataList L m ! i)) \<noteq> n"
    by blast+
  from Cons.IH [OF this(1,2) Cons.prems(3) this(3)] Cons.prems(5)
  show ?case by simp
qed

lemma first_then_others:
  assumes nu: "no_unpaired_named (storageName da) xs"
    and mids: "\<forall>m \<in> set mids. storageName (GetDetails m) \<noteq> storageName da"
    and L: "L = foldl AddToAddDataList (AddToAddDataList xs (FileAddData_new da pa)) mids"
  shows "length xs < length L \<and> L ! length xs = FileAddData_new da pa \<and>
         (\<forall>i < length L. i \<noteq> length xs \<longrightarrow>
            GetOtherFork (L ! i) \<noteq> None \<or> storageName (GetDetails (L ! i)) \<noteq> storageName da)"
proof -
  have "\<forall>x \<in> set xs. \<not> pairs_with x (FileAddData_new da pa)"
    using nu by (auto simp: no_unpaired_named_def pairs_with_def FileAddData_new_def list_all_iff)
  then have L0: "AddToAddDataList xs (FileAddData_new da pa) = xs @ [FileAddData_new da pa]"
    by (rule add_no_match)
  have others: "\<forall>i < length (xs @ [FileAddData_new da pa]). i \<noteq> length xs \<longrightarrow>
      GetOtherFork ((xs @ [FileAddData_new da pa]) ! i) \<noteq> None \<or>
      storageName (GetDetails ((xs @ [FileAddData_new da pa]) ! i)) \<noteq> storageName da"
    using nu by (auto simp: no_unpaired_named_def list_all_length nth_append less_Suc_eq)
  have nm: "storageName (GetDetails (FileAddData_new da pa)) = storageName da"
    by (simp add: FileAddData_new_def)
  have k: "length xs < length (xs @ [FileAddData_new da pa])"
    and c: "(xs @ [FileAddData_new da pa]) ! length xs = FileAddData_new da pa"
    by simp_all
  from fold_other_names_keep [OF k c nm others mids]
  show ?thesis unfolding L L0 .
qed

lemma second_pairs:
  assumes nu: "no_unpaired_named (storageName da) xs"
    and name: "storageName db = storageName da"
    and mids: "\<forall>m \<in> set mids. storageName (GetDetails m) \<noteq> storageName da"
    and L: "L = foldl AddToAddDataList (AddToAddDataList xs (FileAddData_new da pa)) mids"
    and kinds: "complementary (entryKind da) (entryKind db)"
  shows "AddToAddDataList L (FileAddData_new db pb)
         = L[length xs := FileAddData da pa (Some (FileAddData_new db pb))]"
proof -
  from first_then_others [OF nu mids L] have k: "length xs < length L"
    and c: "L ! length xs = FileAddData_new da pa"
    and others: "\<forall>i < length L. i \<noteq> length xs \<longrightarrow>
            GetOtherFork (L ! i) \<noteq> None \<or> storageName (GetDetails (L ! i)) \<noteq> storageName da"
    by blast+
  have m: "pairs_with (L ! length xs) (FileAddData_new db pb)"
    using kinds name by (auto simp: c pairs_with_def FileAddData_new_def complementary_def)
  have before: "\<forall>j < length xs. \<not> pairs_with (L ! j) (FileAddData_new db pb)"
  proof (intro allI impI)
    fix j assume j: "j < length xs"
    with k have "j < length L" "j \<noteq> length xs" by simp_all
    with others have "GetOtherFork (L ! j) \<noteq> None \<or>
        storageName (GetDetails (L ! j)) \<noteq> storageName da" by blast
    with name show "\<not> pairs_with (L ! j) (FileAddData_new db pb)"
      by (auto simp: pairs_with_def FileAddData_new_def)
  qed
  from add_first_match [OF k m before] show ?thesis
    by (simp add: c SetOtherFork_def FileAddData_new_def)
qed

lemma second_same_kind:
  assumes nu: "no_unpaired_named (storageName da) xs"
    and name: "storageName db = storageName da"
    and mids: "\<forall>m \<in> set mids. storageName (GetDetails m) \<noteq> storageName da"
    and L: "L = foldl AddToAddDataList (AddToAddDataList xs (FileAddData_new da pa)) mids"
    and kinds: "entryKind db = entryKind da"
  shows "AddToAddDataList L (FileAddData_new db pb) = L @ [FileAddData_new db pb]"
proof -
  from first_then_others [OF nu mids L] have k: "length xs < length L"
    and c: "L ! length xs = FileAddData_new da pa"
    and others: "\<forall>i < length L. i \<noteq> length xs \<longrightarrow>
            GetOtherFork (L ! i) \<noteq> None \<or> storageName (GetDetails (L ! i)) \<noteq> storageName da"
    by blast+
  have "\<not> pairs_with (L ! i) (FileAddData_new db pb)" if "i < length L" for i
  proof (cases "i = length xs")
    case True
    then show ?thesis using kinds
      by (auto simp: c pairs_with_def FileAddData_new_def complementary_def)
  next
    case False
    with others that name show ?thesis by (auto simp: pairs_with_def FileAddData_new_def)
  qed
  then have "\<forall>x \<in> set L. \<not> pairs_with x (FileAddData_new db pb)"
    by (auto simp: in_set_conv_nth)
  then show ?thesis by (rule add_no_match)
qed

text \<open>
  Claim C1, as amended. \<open>AddToAddDataList\<close> scans the whole list from its head: the
  candidate becomes the other fork of the first node that is unpaired, has the same
  storage name and the complementary kind, wherever that node stands; when there is no
  such node the candidate is appended as a node of its own. So, starting from a list
  in which no unpaired node carries the name, a first candidate, then any candidates
  with other names, then a second candidate with the first one's name give: when the two
  kinds are complementary (in either order), the first candidate's node with the second
  as its other fork and no node for the second; when the two kinds are the same, two
  separate nodes without an other fork. Adding any candidate leaves every node that
  already has an other fork as it was. A disk-image candidate is always appended as a
  node of its own, and a disk-image node already in the list is never given an other
  fork.
\<close>

theorem AddToAddDataList_pairing:
  "((\<forall>x \<in> set xs. \<not> pairs_with x d) \<longrightarrow> AddToAddDataList xs d = xs @ [d]) \<and>
   (i < length xs \<and> pairs_with (xs ! i) d \<and> (\<forall>j < i. \<not> pairs_with (xs ! j) d) \<longrightarrow>
      AddToAddDataList xs d = xs[i := SetOtherFork (xs ! i) d]) \<and>
   (no_unpaired_named (storageName da) xs \<and> storageName db = storageName da \<and>
    (\<forall>m \<in> set mids. storageName (GetDetails m) \<noteq> storageName da) \<and>
    L = foldl AddToAddDataList (AddToAddDataList xs (FileAddData_new da pa)) mids \<longrightarrow>
      length xs < length L \<and> L ! length xs = FileAddData_new da pa \<and>
      (complementary (entryKind da) (entryKind db) \<longrightarrow>
         AddToAddDataList L (FileAddData_new db pb)
           = L[length xs := FileAddData da pa (Some (FileAddData_new db pb))]) \<and>
      (entryKind db = entryKind da \<longrightarrow>
         AddToAddDataList L (FileAddData_new db pb) = L @ [FileAddData_new db pb])) \<and>
   (\<forall>i < length xs. GetOtherFork (xs ! i) \<noteq> None \<longrightarrow> AddToAddDataList xs d ! i = xs ! i) \<and>
   (entryKind (GetDetails d) = kFileKindDiskImage \<longrightarrow> AddToAddDataList xs d = xs @ [d]) \<and>
   (\<forall>i < length xs. entryKind (GetDetails (xs ! i)) = kFileKindDiskImage \<longrightarrow>
      AddToAddDataList xs d ! i = xs ! i)"
  using add_no_match [of xs d] add_first_match [of i xs d]
    first_then_others [of da xs mids L pa]
    second_pairs [of da xs db mids L pa pb] second_same_kind [of da xs db mids L pa pb]
    add_keeps_paired [of _ xs d] add_image [of d xs] add_keeps_image [of _ xs d]
  by blast

theorem AddToAddDataList_pairing_witness:
  "no_unpaired_named ''FOO'' [FileAddData_new (exDetails ''BAR'' kFileKindDataFork) ''BAR''] \<and>
   foldl AddToAddDataList
     (AddToAddDataList [FileAddData_new (exDetails ''BAR'' kFileKindDataFork) ''BAR'']
        (FileAddData_new (exDetails ''FOO'' kFileKindDataFork) ''FOO.D''))
     [FileAddData_new (exDetails ''BAZ'' kFileKindDataFork) ''BAZ'',
      FileAddData_new (exDetails ''BAR'' kFileKindRsrcFork) ''BAR.R'']
   = [FileAddData (exDetails ''BAR'' kFileKindDataFork) ''BAR''
        (Some (FileAddData_new (exDetails ''BAR'' kFileKindRsrcFork) ''BAR.R'')),
      FileAddData_new (exDetails ''FOO'' kFileKindDataFork) ''FOO.D'',
      FileAddData_new (exDetails ''BAZ'' kFileKindDataFork) ''BAZ''] \<and>
   AddToAddDataList
     [FileAddData (exDetails ''BAR'' kFileKindDataFork) ''BAR''
        (Some (FileAddData_new (exDetails ''BAR'' kFileKindRsrcFork) ''BAR.R'')),
      FileAddData_new (exDetails ''FOO'' kFileKindDataFork) ''FOO.D'',
      FileAddData_new (exDetails ''BAZ'' kFileKindDataFork) ''BAZ'']
     (FileAddData_new (exDetails ''FOO'' kFileKindRsrcFork) ''FOO.R'')
   = [FileAddData (exDetails ''BAR'' kFileKindDataFork) ''BAR''
        (Some (FileAddData_new (exDetails ''BAR'' kFileKindRsrcFork) ''BAR.R'')),
      FileAddData (exDetails ''FOO'' kFileKindDataFork) ''FOO.D''
        (Some (FileAddData_new (exDetails ''FOO'' kFileKindRsrcFork) ''FOO.R'')),
      FileAddData_new (exDetails ''BAZ'' kFileKindDataFork) ''BAZ''] \<and>
   AddToAddDataList
     [FileAddData (exDetails ''BAR'' kFileKindDataFork) ''BAR''
        (Some (FileAddData_new (exDetails ''BAR'' kFileKindRsrcFork) ''BAR.R'')),
      FileAddData_new (exDetails ''FOO'' kFileKindDataFork) ''FOO.D'',
      FileAddData_new (exDetails ''BAZ'' kFileKindDataFork) ''BAZ'']
     (FileAddData_new (exDetails ''FOO'' kFileKindDataFork) ''FOO.2'')
   = [FileAddData (exDetails ''BAR'' kFileKindDataFork) ''BAR''
        (Some (FileAddData_new (exDetails ''BAR'' kFileKindRsrcFork) ''BAR.R'')),
      FileAddData_new (exDetails ''FOO'' kFileKindDataFork) ''FOO.D'',
      FileAddData_new (exDetails ''BAZ'' kFileKindDataFork) ''BAZ'',
      FileAddData_new (exDetails ''FOO'' kFileKindDataFork) ''FOO.2''] \<and>
   pairs_with (FileAddData_new (exDetails ''BAR'' kFileKindDataFork) ''BAR'')
     (FileAddData_new (exDetails ''BAR'' kFileKindRsrcFork) ''BAR.R'') \<and>
   AddToAddDataList [FileAddData_new (exDetails ''BAR'' kFileKindDataFork) ''BAR'']
     (FileAddData_new (exDetails ''BAR'' kFileKindDiskImage) ''BAR.PO'')
   = [FileAddData_new (exDetails ''BAR'' kFileKindDataFork) ''BAR'',
      FileAddData_new (exDetails ''BAR'' kFileKindDiskImage) ''BAR.PO'']"
proof -
  let ?bar = "FileAddData_new (exDetails ''BAR'' kFileKindDataFork) ''BAR''"
  let ?barR = "FileAddData_new (exDetails ''BAR'' kFileKindRsrcFork) ''BAR.R''"
  let ?baz = "FileAddData_new (exDetails ''BAZ'' kFileKindDataFork) ''BAZ''"
  let ?fooD = "exDetails ''FOO'' kFileKindDataFork"
  let ?fooR = "exDetails ''FOO'' kFileKindRsrcFork"
  let ?img = "FileAddData_new (exDetails ''BAR'' kFileKindDiskImage) ''BAR.PO''"
  let ?L = "[FileAddData (exDetails ''BAR'' kFileKindDataFork) ''BAR'' (Some ?barR),
             FileAddData_new ?fooD ''FOO.D'', ?baz]"
  have nu: "no_unpaired_named (storageName ?fooD) [?bar]" "no_unpaired_named ''FOO'' [?bar]"
    by (simp_all add: no_unpaired_named_def exDetails_def FileAddData_new_def)
  have nameR: "storageName ?fooR = storageName ?fooD" by (simp add: exDetails_def)
  have mids: "\<forall>m \<in> set [?baz, ?barR]. storageName (GetDetails m) \<noteq> storageName ?fooD"
    by (simp add: exDetails_def FileAddData_new_def)
  have L: "?L = foldl AddToAddDataList (AddToAddDataList [?bar] (FileAddData_new ?fooD ''FOO.D''))
                  [?baz, ?barR]"
    by (simp add: AddToAddDataList_def FileAddData_new_def SetOtherFork_def exDetails_def)
  have compl: "complementary (entryKind ?fooD) (entryKind ?fooR)"
    by (simp add: complementary_def exDetails_def)
  have same: "entryKind ?fooD = entryKind ?fooD" by simp
  have pw: "pairs_with ?bar ?barR"
    by (simp add: pairs_with_def complementary_def exDetails_def FileAddData_new_def)
  have img: "entryKind (GetDetails ?img) = kFileKindDiskImage"
    by (simp add: exDetails_def FileAddData_new_def)
  note a = AddToAddDataList_pairing [of "[?bar]" ?img 0 ?fooD ?fooR "[?baz, ?barR]" ?L
      "''FOO.D''" "''FOO.R''"]
  note b = AddToAddDataList_pairing [of "[?bar]" ?img 0 ?fooD ?fooD "[?baz, ?barR]" ?L
      "''FOO.D''" "''FOO.2''"]
  from a nu nameR mids L compl img have
    "AddToAddDataList ?L (FileAddData_new ?fooR ''FOO.R'')
       = ?L[length [?bar] := FileAddData ?fooD ''FOO.D'' (Some (FileAddData_new ?fooR ''FOO.R''))]"
    and "AddToAddDataList [?bar] ?img = [?bar] @ [?img]"
    by blast+
  moreover from b nu mids L same have
    "AddToAddDataList ?L (FileAddData_new ?fooD ''FOO.2'') = ?L @ [FileAddData_new ?fooD ''FOO.2'']"
    by blast
  ultimately show ?thesis using nu(2) L [symmetric] pw by simp
qed

text \<open>
  Three candidates named \<open>FOO\<close>. Resource, data, data: the first data candidate becomes
  the other fork of the resource node, so the two data candidates are not two separate
  unpaired nodes. Data, data, resource: the resource candidate goes to the first data
  node, not to the data candidate submitted just before it.
\<close>

theorem AddToAddDataList_three_candidates:
  "AddToAddDataList
     (AddToAddDataList
        (AddToAddDataList [] (FileAddData_new (exDetails ''FOO'' kFileKindRsrcFork) ''FOO.R''))
        (FileAddData_new (exDetails ''FOO'' kFileKindDataFork) ''FOO.1''))
     (FileAddData_new (exDetails ''FOO'' kFileKindDataFork) ''FOO.2'')
   = [FileAddData (exDetails ''FOO'' kFileKindRsrcFork) ''FOO.R''
        (Some (FileAddData_new (exDetails ''FOO'' kFileKindDataFork) ''FOO.1'')),
      FileAddData_new (exDetails ''FOO'' kFileKindDataFork) ''FOO.2''] \<and>
   AddToAddDataList
     (AddToAddDataList
        (AddToAddDataList [] (FileAddData_new (exDetails ''FOO'' kFileKindDataFork) ''FOO.1''))
        (FileAddData_new (exDetails ''FOO'' kFileKindDataFork) ''FOO.2''))
     (FileAddData_new (exDetails ''FOO'' kFileKindRsrcFork) ''FOO.R'')
   = [FileAddData (exDetails ''FOO'' kFileKindDataFork) ''FOO.1''
        (Some (FileAddData_new (exDetails ''FOO'' kFileKindRsrcFork) ''FOO.R'')),
      FileAddData_new (exDetails ''FOO'' kFileKindDataFork) ''FOO.2'']"
  by (simp add: AddToAddDataList_def FileAddData_new_def SetOtherFork_def exDetails_def)

subsection \<open>Add-side transcoding\<close>

lemma LoadFile_convert_length: "length (LoadFile_convert msk lastCR bs) \<le> length bs"
  by (induction bs arbitrary: lastCR) (auto simp: le_SucI)

lemma LoadFile_convert_eq:
  "LoadFile_convert msk lastCR bs = map (replace_byte msk) (drop_lf_after_cr lastCR bs)"
  by (induction bs arbitrary: lastCR) (auto simp: replace_byte_def kCharLF_def kCharCR_def)

lemma drop_lf_after_cr_subseq: "subseq (drop_lf_after_cr lastCR bs) bs"
  by (induction bs arbitrary: lastCR) auto

lemma LoadFile_length:
  "LoadFile detConv hostfs path conv convHA = Inr (pBuf, pLen) \<Longrightarrow> hostfs path = Some fp \<Longrightarrow>
   pLen \<le> int (length (hf_bytes fp)) \<and> (\<forall>out. pBuf = Some out \<longrightarrow> int (length out) = pLen)"
  by (auto simp: LoadFile_def Let_def LoadFile_convert_length
      split: if_splits sum.splits prod.splits)

text \<open>
  Claim C5. Whatever the bytes of the host file, the EOL conversion mode, the high-ASCII
  mode and the answer of the line-ending sniffer: when \<open>LoadFile\<close> succeeds, the length it
  reports, which is the length of the buffer it filled, is at most the length of the file.
  The conversion loop itself drops exactly the LF bytes that immediately follow a CR and
  replaces each remaining byte by one byte.
\<close>

theorem LoadFile_no_longer_than_input:
  "(LoadFile detConv hostfs path conv convHA = Inr (pBuf, pLen) \<and> hostfs path = Some fp \<longrightarrow>
      pLen \<le> int (length (hf_bytes fp)) \<and>
      (\<forall>out. pBuf = Some out \<longrightarrow> int (length out) = pLen)) \<and>
   length (LoadFile_convert msk lastCR bs) \<le> length bs \<and>
   LoadFile_convert msk lastCR bs = map (replace_byte msk) (drop_lf_after_cr lastCR bs) \<and>
   subseq (drop_lf_after_cr lastCR bs) bs"
  using LoadFile_length [of detConv hostfs path conv convHA pBuf pLen fp]
  by (simp add: LoadFile_convert_length drop_lf_after_cr_subseq
      LoadFile_convert_eq [symmetric])

theorem LoadFile_no_longer_than_input_witness:
  "LoadFile (\<lambda>c. (kConvertEOLOn, kEOLCRLF)) (\<lambda>p. Some (exHostFile [0x41, 0x0d, 0x0a, 0x00, 0x0a]))
     ''a.txt'' kConvertEOLAuto kConvertHAOn = Inr (Some [0xc1, 0x8d, 0x00, 0x8d], 4) \<and>
   (4::int) \<le> int (length (hf_bytes (exHostFile [0x41, 0x0d, 0x0a, 0x00, 0x0a])))"
proof -
  have h: "LoadFile (\<lambda>c. (kConvertEOLOn, kEOLCRLF))
             (\<lambda>p. Some (exHostFile [0x41, 0x0d, 0x0a, 0x00, 0x0a]))
             ''a.txt'' kConvertEOLAuto kConvertHAOn = Inr (Some [0xc1, 0x8d, 0x00, 0x8d], 4)"
    by (simp add: LoadFile_def exHostFile_def kCharCR_def kCharLF_def)
  from LoadFile_no_longer_than_input [of "\<lambda>c. (kConvertEOLOn, kEOLCRLF)"
      "\<lambda>p. Some (exHostFile [0x41, 0x0d, 0x0a, 0x00, 0x0a])" "''a.txt''" kConvertEOLAuto
      kConvertHAOn "Some [0xc1, 0x8d, 0x00, 0x8d]" 4 "exHostFile [0x41, 0x0d, 0x0a, 0x00, 0x0a]"
      0 False "[]"] h
  show ?thesis by simp
qed

subsection \<open>Creating an entry and writing its forks\<close>


lemma bail_eq:
  "AddForksToDisk_bail e nf po tr =
     (Returned e, tr @ (case po of None \<Rightarrow> [] | Some fd \<Rightarrow> [CloseCall fd]) @
        (case nf of None \<Rightarrow> [] | Some f \<Rightarrow> if e \<noteq> kDIErrNone then [DeleteFileCall f] else []))"
  by (simp add: AddForksToDisk_bail_def Let_def split: option.splits)

lemma fork_bail:
  assumes "AddForksToDisk_fork drv nf r buf len tr = ForkBail e po tr1"
  shows "e \<noteq> kDIErrNone \<and> (\<exists>mid c. tr1 = tr @ mid @ [c] \<and> is_fork_call c \<and>
      answer drv (tr @ mid) c = e \<and> (\<forall>f. OpenCall f (\<not> r) \<notin> set (mid @ [c])))"
proof -
  from assms obtain f where nf: "nf = Some f"
    by (auto simp: AddForksToDisk_fork_def split: option.splits)
  obtain d po' where op: "Open drv tr f r = (d, po')" by force
  show ?thesis
  proof (cases "d = kDIErrNone")
    case False
    with assms nf op have "e = d" "tr1 = tr @ [] @ [OpenCall f r]"
      by (auto simp: AddForksToDisk_fork_def)
    with False op show ?thesis
      by (intro conjI exI [of _ "[]"] exI [of _ "OpenCall f r"]) auto
  next
    case True
    with assms nf op obtain fd where po': "po' = Some fd"
      by (auto simp: AddForksToDisk_fork_def split: option.splits)
    show ?thesis
    proof (cases "Write drv (tr @ [OpenCall f r]) fd buf len = kDIErrNone")
      case False
      with assms nf op True po'
      have "e = Write drv (tr @ [OpenCall f r]) fd buf len"
        "tr1 = tr @ [OpenCall f r] @ [WriteCall fd buf len]"
        by (auto simp: AddForksToDisk_fork_def)
      with False show ?thesis
        by (intro conjI exI [of _ "[OpenCall f r]"] exI [of _ "WriteCall fd buf len"]) auto
    next
      case w: True
      with assms nf op True po'
      have "e = Close drv (tr @ [OpenCall f r, WriteCall fd buf len]) fd"
        "tr1 = tr @ [OpenCall f r, WriteCall fd buf len] @ [CloseCall fd]"
        "e \<noteq> kDIErrNone"
        by (auto simp: AddForksToDisk_fork_def split: if_splits)
      then show ?thesis
        by (intro conjI exI [of _ "[OpenCall f r, WriteCall fd buf len]"]
            exI [of _ "CloseCall fd"]) auto
    qed
  qed
qed

lemma fork_done:
  "AddForksToDisk_fork drv nf r buf len tr = ForkDone tr1 \<Longrightarrow>
   \<exists>mid. tr1 = tr @ mid \<and> (\<forall>f. OpenCall f (\<not> r) \<notin> set mid)"
  by (auto simp: AddForksToDisk_fork_def split: option.splits prod.splits if_splits)

lemma fork_null:
  "AddForksToDisk_fork drv nf r buf len tr = ForkNull tr1 \<Longrightarrow>
   \<exists>mid. tr1 = tr @ mid \<and> (\<forall>f. OpenCall f (\<not> r) \<notin> set mid)"
  by (auto simp: AddForksToDisk_fork_def split: option.splits prod.splits if_splits)

lemma bail_head:
  "t = tr @ CreateFileCall p # mid \<Longrightarrow>
   \<exists>rest. snd (AddForksToDisk_bail e nf po t) = tr @ CreateFileCall p # rest"
  by (simp add: bail_eq)

lemma fork_head:
  assumes "b \<noteq> r" and "\<forall>f. OpenCall f b \<notin> set mid"
  shows "case AddForksToDisk_fork drv nf r buf len (tr @ CreateFileCall p # mid) of
           ForkDone t1 \<Rightarrow>
             \<exists>mid1. t1 = tr @ CreateFileCall p # mid1 \<and> (\<forall>f. OpenCall f b \<notin> set mid1)
         | ForkBail e po t1 \<Rightarrow>
             \<exists>mid1. t1 = tr @ CreateFileCall p # mid1 \<and> (\<forall>f. OpenCall f b \<notin> set mid1)
         | ForkNull t1 \<Rightarrow>
             \<exists>mid1. t1 = tr @ CreateFileCall p # mid1 \<and> (\<forall>f. OpenCall f b \<notin> set mid1)"
proof -
  from assms(1) have b: "b = (\<not> r)" by auto
  show ?thesis
  proof (cases "AddForksToDisk_fork drv nf r buf len (tr @ CreateFileCall p # mid)")
    case (ForkDone t1)
    from fork_done [OF this] assms(2) show ?thesis unfolding b by (auto simp: ForkDone)
  next
    case (ForkBail e po t1)
    from fork_bail [OF this] assms(2) show ?thesis unfolding b by (auto simp: ForkBail)
  next
    case (ForkNull t1)
    from fork_null [OF this] assms(2) show ?thesis unfolding b by (auto simp: ForkNull)
  qed
qed

lemma fork_head_plain:
  "case AddForksToDisk_fork drv nf r buf len (tr @ CreateFileCall p # mid) of
     ForkDone t1 \<Rightarrow> \<exists>mid1. t1 = tr @ CreateFileCall p # mid1
   | ForkBail e po t1 \<Rightarrow> \<exists>mid1. t1 = tr @ CreateFileCall p # mid1
   | ForkNull t1 \<Rightarrow> \<exists>mid1. t1 = tr @ CreateFileCall p # mid1"
proof (cases "AddForksToDisk_fork drv nf r buf len (tr @ CreateFileCall p # mid)")
  case (ForkDone t1)
  from fork_done [OF this] show ?thesis by (auto simp: ForkDone)
next
  case (ForkBail e po t1)
  from fork_bail [OF this] show ?thesis by (auto simp: ForkBail)
next
  case (ForkNull t1)
  from fork_null [OF this] show ?thesis by (auto simp: ForkNull)
qed

lemma create_trace_head:
  "\<exists>rest. snd (AddForksToDisk_create drv p dataBuf dataLen rsrcBuf rsrcLen tr)
           = tr @ CreateFileCall p # rest \<and>
          (rsrcLen \<le> 0 \<longrightarrow> (\<forall>f. OpenCall f True \<notin> set rest))"
proof -
  obtain d nf where c: "CreateFile drv tr p = (d, nf)" by force
  let ?t0 = "tr @ [CreateFileCall p]"
  let ?data = "if dataLen > 0 \<or> (dataLen = 0 \<and> nf \<noteq> None) then
                 AddForksToDisk_fork drv nf False
                   (Some (case dataBuf of Some b \<Rightarrow> b | None \<Rightarrow> [0])) dataLen ?t0
               else ForkDone ?t0"
  have dh: "case ?data of
           ForkDone t1 \<Rightarrow>
             \<exists>mid1. t1 = tr @ CreateFileCall p # mid1 \<and> (\<forall>f. OpenCall f True \<notin> set mid1)
         | ForkBail e po t1 \<Rightarrow>
             \<exists>mid1. t1 = tr @ CreateFileCall p # mid1 \<and> (\<forall>f. OpenCall f True \<notin> set mid1)
         | ForkNull t1 \<Rightarrow>
             \<exists>mid1. t1 = tr @ CreateFileCall p # mid1 \<and> (\<forall>f. OpenCall f True \<notin> set mid1)"
    using fork_head [where b=True and drv=drv and nf=nf and r=False and len=dataLen and tr=tr
        and p=p and mid="[]"
        and buf="Some (case dataBuf of Some b \<Rightarrow> b | None \<Rightarrow> [0])"]
    by simp
  show ?thesis
  proof (cases "d = kDIErrNone")
    case False
    with c show ?thesis by (simp add: AddForksToDisk_create_def bail_eq split: option.splits)
  next
    case True
    show ?thesis
    proof (cases ?data)
      case (ForkNull t1)
      with dh c True show ?thesis by (auto simp: AddForksToDisk_create_def)
    next
      case (ForkBail e1 po t1)
      with dh c True show ?thesis
        by (auto simp: AddForksToDisk_create_def bail_eq split: option.splits)
    next
      case (ForkDone t1)
      with dh obtain mid1 where t1: "t1 = tr @ CreateFileCall p # mid1"
        and m1: "\<forall>f. OpenCall f True \<notin> set mid1" by auto
      show ?thesis
      proof (cases "rsrcLen > 0")
        case False
        with c True ForkDone t1 m1 show ?thesis
          by (auto simp: AddForksToDisk_create_def bail_eq split: option.splits)
      next
        case r: True
        have rh: "case AddForksToDisk_fork drv nf True rsrcBuf rsrcLen t1 of
             ForkDone t2 \<Rightarrow> \<exists>mid2. t2 = tr @ CreateFileCall p # mid2
           | ForkBail e po t2 \<Rightarrow> \<exists>mid2. t2 = tr @ CreateFileCall p # mid2
           | ForkNull t2 \<Rightarrow> \<exists>mid2. t2 = tr @ CreateFileCall p # mid2"
          using fork_head_plain [where drv=drv and nf=nf and r=True and buf=rsrcBuf
              and len=rsrcLen and tr=tr and p=p and mid=mid1] t1 by simp
        show ?thesis
        proof (cases "AddForksToDisk_fork drv nf True rsrcBuf rsrcLen t1")
          case (ForkNull t2)
          with rh c True ForkDone r show ?thesis by (auto simp: AddForksToDisk_create_def)
        next
          case (ForkBail e2 po t2)
          with rh c True ForkDone r show ?thesis
            by (auto simp: AddForksToDisk_create_def bail_eq split: option.splits)
        next
          case fd2: (ForkDone t2)
          with rh c True ForkDone r show ?thesis
            by (auto simp: AddForksToDisk_create_def bail_eq split: option.splits)
        qed
      qed
    qed
  qed
qed

lemma create_cleanup:
  assumes run: "AddForksToDisk_create drv p dataBuf dataLen rsrcBuf rsrcLen tr = (Returned e, tr')"
    and err: "e \<noteq> kDIErrNone"
    and created: "CreateFile drv tr p = (kDIErrNone, Some f)"
  shows "\<exists>pre c post. tr' = pre @ c # post \<and> is_fork_call c \<and> answer drv pre c = e \<and>
           (post = [DeleteFileCall f] \<or> (\<exists>fd. post = [CloseCall fd, DeleteFileCall f]))"
proof -
  let ?t0 = "tr @ [CreateFileCall p]"
  let ?data = "if dataLen > 0 \<or> (dataLen = 0 \<and> Some f \<noteq> None) then
                 AddForksToDisk_fork drv (Some f) False
                   (Some (case dataBuf of Some b \<Rightarrow> b | None \<Rightarrow> [0])) dataLen ?t0
               else ForkDone ?t0"
  have shape: "\<exists>pre c post. tr1 @ (case po of None \<Rightarrow> [] | Some fd \<Rightarrow> [CloseCall fd]) @
                  [DeleteFileCall f] = pre @ c # post \<and> is_fork_call c \<and> answer drv pre c = e' \<and>
                  (post = [DeleteFileCall f] \<or> (\<exists>fd. post = [CloseCall fd, DeleteFileCall f]))"
    if "AddForksToDisk_fork drv nf r buf len t = ForkBail e' po tr1" for nf r buf len t e' po tr1
  proof -
    from fork_bail [OF that] obtain mid c where
      m: "tr1 = t @ mid @ [c]" "is_fork_call c" "answer drv (t @ mid) c = e'" by blast
    show ?thesis
      by (rule exI [of _ "t @ mid"], rule exI [of _ c],
          rule exI [of _ "(case po of None \<Rightarrow> [] | Some fd \<Rightarrow> [CloseCall fd]) @ [DeleteFileCall f]"])
         (use m in \<open>auto split: option.splits\<close>)
  qed
  show ?thesis
  proof (cases ?data)
    case (ForkNull t1)
    with run created show ?thesis by (simp add: AddForksToDisk_create_def)
  next
    case (ForkBail e1 po t1)
    with run created err have "e = e1"
      "tr' = t1 @ (case po of None \<Rightarrow> [] | Some fd \<Rightarrow> [CloseCall fd]) @ [DeleteFileCall f]"
      by (auto simp: AddForksToDisk_create_def bail_eq)
    moreover from ForkBail have
      "AddForksToDisk_fork drv (Some f) False
         (Some (case dataBuf of Some b \<Rightarrow> b | None \<Rightarrow> [0])) dataLen ?t0 = ForkBail e1 po t1"
      by (simp split: if_splits)
    ultimately show ?thesis using shape by blast
  next
    case (ForkDone t1)
    let ?rsrc = "if rsrcLen > 0 then AddForksToDisk_fork drv (Some f) True rsrcBuf rsrcLen t1
                 else ForkDone t1"
    show ?thesis
    proof (cases ?rsrc)
      case (ForkNull t2)
      with run created ForkDone show ?thesis by (simp add: AddForksToDisk_create_def)
    next
      case (ForkBail e2 po t2)
      with run created err ForkDone have "e = e2"
        "tr' = t2 @ (case po of None \<Rightarrow> [] | Some fd \<Rightarrow> [CloseCall fd]) @ [DeleteFileCall f]"
        by (auto simp: AddForksToDisk_create_def bail_eq)
      moreover from ForkBail have
        "AddForksToDisk_fork drv (Some f) True rsrcBuf rsrcLen t1 = ForkBail e2 po t2"
        by (simp split: if_splits)
      ultimately show ?thesis using shape by blast
    next
      case fd2: (ForkDone t2)
      with run created err ForkDone show ?thesis
        by (simp add: AddForksToDisk_create_def bail_eq)
    qed
  qed
qed

lemma fork_DeleteFile_ignored:
  "AddForksToDisk_fork (drv\<lparr>DeleteFile := del\<rparr>) nf r buf len tr
   = AddForksToDisk_fork drv nf r buf len tr"
  by (auto simp: AddForksToDisk_fork_def split: option.splits prod.splits)

lemma create_DeleteFile_ignored:
  "AddForksToDisk_create (drv\<lparr>DeleteFile := del\<rparr>) p dataBuf dataLen rsrcBuf rsrcLen tr
   = AddForksToDisk_create drv p dataBuf dataLen rsrcBuf rsrcLen tr"
  unfolding AddForksToDisk_create_def fork_DeleteFile_ignored by simp

lemma AddForksToDisk_DeleteFile_ignored:
  "AddForksToDisk ext fmt (drv\<lparr>DeleteFile := del\<rparr>) pParms dataBuf dataLen rsrcBuf rsrcLen tr
   = AddForksToDisk ext fmt drv pParms dataBuf dataLen rsrcBuf rsrcLen tr"
  unfolding AddForksToDisk_def create_DeleteFile_ignored by (simp split: prod.splits)

lemma AddForksToDisk_error_after_create:
  assumes run: "AddForksToDisk ext fmt drv pParms dataBuf dataLen rsrcBuf rsrcLen tr = (Returned e, tr')"
    and err: "e \<noteq> kDIErrNone"
    and first: "tr' = tr @ CreateFileCall p # rest"
    and created: "CreateFile drv tr p = (kDIErrNone, Some f)"
  shows "(\<exists>pre c post. tr' = pre @ c # post \<and> is_fork_call c \<and> answer drv pre c = e \<and>
            (post = [DeleteFileCall f] \<or> (\<exists>fd. post = [CloseCall fd, DeleteFileCall f]))) \<and>
         AddForksToDisk ext fmt (drv\<lparr>DeleteFile := del\<rparr>) pParms dataBuf dataLen rsrcBuf rsrcLen tr
           = (Returned e, tr')"
proof -
  obtain p1 d1 where ef: "AddForksToDisk_emptyFolder ext pParms dataLen = (p1, d1)" by force
  obtain p2 r2 nl where dr: "AddForksToDisk_dropRsrc ext fmt p1 d1 rsrcLen = (p2, r2, nl)"
    by (metis prod_cases3)
  let ?p3 = "AddForksToDisk_dosType ext fmt p2 d1"
  have notdir: "storageType p1 \<noteq> kNuStorageDirectory"
  proof
    assume "storageType p1 = kNuStorageDirectory"
    with run ef first created err show False
      by (auto simp: AddForksToDisk_def bail_eq split: if_splits prod.splits)
  qed
  have notnl: "\<not> nl"
    using run ef dr first notdir by (auto simp: AddForksToDisk_def bail_eq split: if_splits)
  have cr: "AddForksToDisk_create drv ?p3 dataBuf d1 rsrcBuf r2 tr = (Returned e, tr')"
    using run ef dr notdir notnl by (simp add: AddForksToDisk_def)
  from create_trace_head [of drv ?p3 dataBuf d1 rsrcBuf r2 tr] cr first have "p = ?p3"
    by auto
  with create_cleanup [OF cr err] created have
    "\<exists>pre c post. tr' = pre @ c # post \<and> is_fork_call c \<and> answer drv pre c = e \<and>
        (post = [DeleteFileCall f] \<or> (\<exists>fd. post = [CloseCall fd, DeleteFileCall f]))"
    by simp
  then show ?thesis using run by (simp add: AddForksToDisk_DeleteFile_ignored)
qed

lemma fcs_append:
  "fork_calls_succeeded drv pre (xs @ ys) \<longleftrightarrow>
   fork_calls_succeeded drv pre xs \<and> fork_calls_succeeded drv (pre @ xs) ys"
  by (induction xs arbitrary: pre) auto

lemma fork_done_ok:
  "AddForksToDisk_fork drv nf r buf len tr = ForkDone t1 \<Longrightarrow>
   \<exists>mid. t1 = tr @ mid \<and> fork_calls_succeeded drv tr mid"
  by (auto simp: AddForksToDisk_fork_def split: option.splits prod.splits if_splits)

lemma fork_null_ok:
  "AddForksToDisk_fork drv nf r buf len tr = ForkNull t1 \<Longrightarrow>
   \<exists>mid. t1 = tr @ mid \<and> fork_calls_succeeded drv tr mid"
  by (auto simp: AddForksToDisk_fork_def split: option.splits prod.splits if_splits)

lemma fork_bail_err:
  "AddForksToDisk_fork drv nf r buf len tr = ForkBail e po t1 \<Longrightarrow> e \<noteq> kDIErrNone"
  by (auto simp: AddForksToDisk_fork_def split: option.splits prod.splits if_splits)

lemma create_no_error:
  assumes res: "AddForksToDisk_create drv p dataBuf dataLen rsrcBuf rsrcLen tr = (r, tr')"
    and ok: "r = Returned kDIErrNone \<or> r = NullDereference"
  shows "\<exists>new. tr' = tr @ new \<and> fork_calls_succeeded drv tr new"
proof -
  obtain d nf where c: "CreateFile drv tr p = (d, nf)" by force
  let ?t0 = "tr @ [CreateFileCall p]"
  let ?data = "if dataLen > 0 \<or> (dataLen = 0 \<and> nf \<noteq> None) then
                 AddForksToDisk_fork drv nf False
                   (Some (case dataBuf of Some b \<Rightarrow> b | None \<Rightarrow> [0])) dataLen ?t0
               else ForkDone ?t0"
  have d: "d = kDIErrNone"
    using res ok c by (auto simp: AddForksToDisk_create_def bail_eq split: if_splits)
  show ?thesis
  proof (cases ?data)
    case (ForkNull t1)
    then have "AddForksToDisk_fork drv nf False
                   (Some (case dataBuf of Some b \<Rightarrow> b | None \<Rightarrow> [0])) dataLen ?t0 = ForkNull t1"
      by (simp split: if_splits)
    from fork_null_ok [OF this] obtain mid where "t1 = ?t0 @ mid" "fork_calls_succeeded drv ?t0 mid"
      by blast
    moreover from res c d ForkNull have "tr' = t1" by (simp add: AddForksToDisk_create_def)
    ultimately show ?thesis by (intro exI [of _ "CreateFileCall p # mid"]) simp
  next
    case (ForkBail e1 po t1)
    then have "AddForksToDisk_fork drv nf False
                   (Some (case dataBuf of Some b \<Rightarrow> b | None \<Rightarrow> [0])) dataLen ?t0 = ForkBail e1 po t1"
      by (simp split: if_splits)
    from fork_bail_err [OF this] res ok c d ForkBail show ?thesis
      by (auto simp: AddForksToDisk_create_def bail_eq)
  next
    case (ForkDone t1)
    have "\<exists>mid. t1 = ?t0 @ mid \<and> fork_calls_succeeded drv ?t0 mid"
    proof (cases "dataLen > 0 \<or> (dataLen = 0 \<and> nf \<noteq> None)")
      case True
      with ForkDone have "AddForksToDisk_fork drv nf False
                   (Some (case dataBuf of Some b \<Rightarrow> b | None \<Rightarrow> [0])) dataLen ?t0 = ForkDone t1"
        by simp
      from fork_done_ok [OF this] show ?thesis .
    next
      case False
      with ForkDone have "t1 = ?t0" by (auto split: if_splits)
      then show ?thesis by simp
    qed
    then obtain mid1 where t1: "t1 = ?t0 @ mid1" and ok1: "fork_calls_succeeded drv ?t0 mid1"
      by blast
    let ?rsrc = "if rsrcLen > 0 then AddForksToDisk_fork drv nf True rsrcBuf rsrcLen t1
                 else ForkDone t1"
    show ?thesis
    proof (cases ?rsrc)
      case (ForkNull t2)
      then have "AddForksToDisk_fork drv nf True rsrcBuf rsrcLen t1 = ForkNull t2"
        by (simp split: if_splits)
      from fork_null_ok [OF this] obtain mid2 where
        "t2 = t1 @ mid2" "fork_calls_succeeded drv t1 mid2" by blast
      moreover from res c d ForkDone ForkNull have "tr' = t2"
        by (simp add: AddForksToDisk_create_def)
      ultimately show ?thesis using t1 ok1
        by (intro exI [of _ "CreateFileCall p # mid1 @ mid2"]) (simp add: fcs_append)
    next
      case (ForkBail e2 po t2)
      then have "AddForksToDisk_fork drv nf True rsrcBuf rsrcLen t1 = ForkBail e2 po t2"
        by (simp split: if_splits)
      from fork_bail_err [OF this] res ok c d ForkDone ForkBail show ?thesis
        by (auto simp: AddForksToDisk_create_def bail_eq)
    next
      case fd2: (ForkDone t2)
      have "\<exists>mid2. t2 = t1 @ mid2 \<and> fork_calls_succeeded drv t1 mid2"
      proof (cases "rsrcLen > 0")
        case True
        with fd2 have "AddForksToDisk_fork drv nf True rsrcBuf rsrcLen t1 = ForkDone t2" by simp
        from fork_done_ok [OF this] show ?thesis .
      next
        case False
        with fd2 have "t2 = t1" by (auto split: if_splits)
        then show ?thesis by simp
      qed
      then obtain mid2 where "t2 = t1 @ mid2" "fork_calls_succeeded drv t1 mid2" by blast
      moreover from res c d ForkDone fd2 have "tr' = t2"
        by (simp add: AddForksToDisk_create_def bail_eq split: option.splits)
      ultimately show ?thesis using t1 ok1
        by (intro exI [of _ "CreateFileCall p # mid1 @ mid2"]) (simp add: fcs_append)
    qed
  qed
qed

lemma AddForksToDisk_no_error:
  assumes res: "AddForksToDisk ext fmt drv pParms dataBuf dataLen rsrcBuf rsrcLen tr = (r, tr')"
    and ok: "r = Returned kDIErrNone \<or> r = NullDereference"
  shows "\<exists>new. tr' = tr @ new \<and> fork_calls_succeeded drv tr new"
proof -
  obtain p1 d1 where ef: "AddForksToDisk_emptyFolder ext pParms dataLen = (p1, d1)" by force
  obtain p2 r2 nl where dr: "AddForksToDisk_dropRsrc ext fmt p1 d1 rsrcLen = (p2, r2, nl)"
    by (metis prod_cases3)
  show ?thesis
  proof (cases "storageType p1 = kNuStorageDirectory \<or> nl")
    case True
    with res ef dr show ?thesis
      by (auto simp: AddForksToDisk_def bail_eq split: if_splits prod.splits)
  next
    case False
    with res ef dr have
      "AddForksToDisk_create drv (AddForksToDisk_dosType ext fmt p2 d1) dataBuf d1 rsrcBuf r2 tr
       = (r, tr')"
      by (simp add: AddForksToDisk_def)
    from create_no_error [OF this ok] show ?thesis .
  qed
qed

lemma fork_all_succeed:
  assumes "\<forall>t f r. \<exists>fd. Open drv t f r = (kDIErrNone, Some fd)"
    and "\<forall>t fd b n. Write drv t fd b n = kDIErrNone"
    and "\<forall>t fd. Close drv t fd = kDIErrNone"
  shows "\<exists>t1. AddForksToDisk_fork drv (Some f) r buf len tr = ForkDone t1"
proof -
  from assms(1) obtain fd where "Open drv tr f r = (kDIErrNone, Some fd)" by blast
  with assms(2,3) show ?thesis by (simp add: AddForksToDisk_fork_def)
qed

lemma create_all_succeed:
  assumes "\<forall>t q. \<exists>f. CreateFile drv t q = (kDIErrNone, Some f)"
    and o: "\<forall>t f r. \<exists>fd. Open drv t f r = (kDIErrNone, Some fd)"
    and w: "\<forall>t fd b n. Write drv t fd b n = kDIErrNone"
    and c: "\<forall>t fd. Close drv t fd = kDIErrNone"
  shows "fst (AddForksToDisk_create drv p dataBuf dataLen rsrcBuf rsrcLen tr) = Returned kDIErrNone"
proof -
  from assms(1) obtain f where cf: "CreateFile drv tr p = (kDIErrNone, Some f)" by blast
  obtain t1 where d: "(if dataLen > 0 \<or> (dataLen = 0 \<and> Some f \<noteq> None) then
                 AddForksToDisk_fork drv (Some f) False
                   (Some (case dataBuf of Some b \<Rightarrow> b | None \<Rightarrow> [0])) dataLen
                   (tr @ [CreateFileCall p])
               else ForkDone (tr @ [CreateFileCall p])) = ForkDone t1"
    using fork_all_succeed [OF o w c, of f False _ dataLen "tr @ [CreateFileCall p]"]
    by (cases "dataLen > 0 \<or> (dataLen = 0 \<and> Some f \<noteq> None)") auto
  obtain t2 where r: "(if rsrcLen > 0 then AddForksToDisk_fork drv (Some f) True rsrcBuf rsrcLen t1
                 else ForkDone t1) = ForkDone t2"
    using fork_all_succeed [OF o w c, of f True rsrcBuf rsrcLen t1]
    by (cases "rsrcLen > 0") auto
  show ?thesis
    unfolding AddForksToDisk_create_def cf using d r by (simp add: bail_eq)
qed

lemma dosType_storageType:
  "storageType (AddForksToDisk_dosType ext fmt p d) = storageType p"
  by (simp add: AddForksToDisk_dosType_def)

text \<open>
  Claim C7. The destination has no resource forks and the request carries one (so its
  storage type is neither seedling nor directory: the function asserts that it is
  extended). If there is no data fork, the function
  returns success and makes no driver call. If there is a data fork, the first driver
  call is \<open>CreateFile\<close> with storage type seedling, the resource fork is never opened,
  and when the driver succeeds on every call the function returns success.
\<close>

theorem AddForksToDisk_drops_rsrc:
  "\<not> HasResourceForks ext fmt \<and> rsrcLen \<ge> 0 \<and>
   storageType pParms \<noteq> kNuStorageSeedling \<and> storageType pParms \<noteq> kNuStorageDirectory \<longrightarrow>
     (dataLen < 0 \<longrightarrow>
        AddForksToDisk ext fmt drv pParms dataBuf dataLen rsrcBuf rsrcLen tr
          = (Returned kDIErrNone, tr)) \<and>
     (dataLen \<ge> 0 \<longrightarrow>
        (\<exists>p rest. snd (AddForksToDisk ext fmt drv pParms dataBuf dataLen rsrcBuf rsrcLen tr)
                     = tr @ CreateFileCall p # rest \<and>
                   storageType p = kNuStorageSeedling \<and> (\<forall>f. OpenCall f True \<notin> set rest)) \<and>
        ((\<forall>t q. \<exists>f. CreateFile drv t q = (kDIErrNone, Some f)) \<and>
         (\<forall>t f r. \<exists>fd. Open drv t f r = (kDIErrNone, Some fd)) \<and>
         (\<forall>t fd b n. Write drv t fd b n = kDIErrNone) \<and>
         (\<forall>t fd. Close drv t fd = kDIErrNone) \<longrightarrow>
         fst (AddForksToDisk ext fmt drv pParms dataBuf dataLen rsrcBuf rsrcLen tr)
           = Returned kDIErrNone))"
proof (intro impI, elim conjE)
  assume nr: "\<not> HasResourceForks ext fmt" and rl: "rsrcLen \<ge> 0"
    and st: "storageType pParms \<noteq> kNuStorageSeedling"
    and st': "storageType pParms \<noteq> kNuStorageDirectory"
  have ef: "AddForksToDisk_emptyFolder ext pParms dataLen = (pParms, dataLen)"
    using st by (simp add: AddForksToDisk_emptyFolder_def)
  have dr: "AddForksToDisk_dropRsrc ext fmt pParms dataLen rsrcLen
            = (pParms\<lparr>storageType := kNuStorageSeedling\<rparr>, -1, dataLen < 0)"
    using nr rl by (simp add: AddForksToDisk_dropRsrc_def)
  let ?p = "AddForksToDisk_dosType ext fmt (pParms\<lparr>storageType := kNuStorageSeedling\<rparr>) dataLen"
  have neg: "dataLen < 0 \<Longrightarrow>
        AddForksToDisk ext fmt drv pParms dataBuf dataLen rsrcBuf rsrcLen tr
          = (Returned kDIErrNone, tr)"
    using st' by (simp add: AddForksToDisk_def ef dr bail_eq)
  have pos: "AddForksToDisk ext fmt drv pParms dataBuf dataLen rsrcBuf rsrcLen tr
       = AddForksToDisk_create drv ?p dataBuf dataLen rsrcBuf (-1) tr" if "dataLen \<ge> 0"
    using st' that by (simp add: AddForksToDisk_def ef dr)
  have sp: "storageType ?p = kNuStorageSeedling" by (simp add: dosType_storageType)
  from create_trace_head [of drv ?p dataBuf dataLen rsrcBuf "-1" tr] sp
  have tr: "\<exists>p rest. snd (AddForksToDisk_create drv ?p dataBuf dataLen rsrcBuf (-1) tr)
                     = tr @ CreateFileCall p # rest \<and>
                   storageType p = kNuStorageSeedling \<and> (\<forall>f. OpenCall f True \<notin> set rest)"
    by auto
  show "(dataLen < 0 \<longrightarrow>
        AddForksToDisk ext fmt drv pParms dataBuf dataLen rsrcBuf rsrcLen tr
          = (Returned kDIErrNone, tr)) \<and>
     (dataLen \<ge> 0 \<longrightarrow>
        (\<exists>p rest. snd (AddForksToDisk ext fmt drv pParms dataBuf dataLen rsrcBuf rsrcLen tr)
                     = tr @ CreateFileCall p # rest \<and>
                   storageType p = kNuStorageSeedling \<and> (\<forall>f. OpenCall f True \<notin> set rest)) \<and>
        ((\<forall>t q. \<exists>f. CreateFile drv t q = (kDIErrNone, Some f)) \<and>
         (\<forall>t f r. \<exists>fd. Open drv t f r = (kDIErrNone, Some fd)) \<and>
         (\<forall>t fd b n. Write drv t fd b n = kDIErrNone) \<and>
         (\<forall>t fd. Close drv t fd = kDIErrNone) \<longrightarrow>
         fst (AddForksToDisk ext fmt drv pParms dataBuf dataLen rsrcBuf rsrcLen tr)
           = Returned kDIErrNone))"
    using neg pos tr create_all_succeed [of drv ?p dataBuf dataLen rsrcBuf "-1" tr]
    by (cases "dataLen < 0") (simp_all add: not_less)
qed


lemma emptyFolder_cases:
  "AddForksToDisk_emptyFolder ext pParms dataLen = (p1, d1) \<Longrightarrow>
   (p1 = pParms \<and> d1 = dataLen) \<or> storageType p1 = kNuStorageDirectory"
  by (auto simp: AddForksToDisk_emptyFolder_def split: if_splits option.splits)

lemma dropRsrc_fileType:
  "AddForksToDisk_dropRsrc ext fmt p d r = (p2, r2, nl) \<Longrightarrow> fileType p2 = fileType p \<and>
     (storageType p2 = kNuStorageDirectory \<longrightarrow> storageType p = kNuStorageDirectory)"
  by (auto simp: AddForksToDisk_dropRsrc_def split: if_splits)

text \<open>
  Claim C9, as amended. When the first driver call of \<open>AddForksToDisk\<close> is a \<open>CreateFile\<close>
  for something other than a directory, the file type it carries is \<open>0xf2\<close> if the
  destination uses the DOS file structure, the data-fork length is at least 65536 and
  the requested type is \<open>0x06\<close>, \<open>0xfa\<close> or \<open>0xfc\<close>; otherwise it is the requested type.
\<close>

theorem AddForksToDisk_dos_type:
  assumes run: "snd (AddForksToDisk ext fmt drv pParms dataBuf dataLen rsrcBuf rsrcLen tr)
                = tr @ CreateFileCall p # rest"
    and isfile: "storageType p \<noteq> kNuStorageDirectory"
  shows "fileType p =
     (if UsesDOSFileStructure ext fmt \<and> dataLen \<ge> 65536 \<and>
         (fileType pParms = 0x06 \<or> fileType pParms = 0xfa \<or> fileType pParms = 0xfc)
      then 0xf2 else fileType pParms)"
proof -
  obtain p1 d1 where ef: "AddForksToDisk_emptyFolder ext pParms dataLen = (p1, d1)" by force
  obtain p2 r2 nl where dr: "AddForksToDisk_dropRsrc ext fmt p1 d1 rsrcLen = (p2, r2, nl)"
    by (metis prod_cases3)
  let ?p3 = "AddForksToDisk_dosType ext fmt p2 d1"
  have notdir: "storageType p1 \<noteq> kNuStorageDirectory"
  proof
    assume "storageType p1 = kNuStorageDirectory"
    with run ef isfile show False
      by (auto simp: AddForksToDisk_def bail_eq split: if_splits prod.splits)
  qed
  with emptyFolder_cases [OF ef] have same: "p1 = pParms" "d1 = dataLen" by auto
  have notnl: "\<not> nl"
    using run ef dr notdir by (auto simp: AddForksToDisk_def bail_eq split: if_splits)
  have "snd (AddForksToDisk_create drv ?p3 dataBuf d1 rsrcBuf r2 tr) = tr @ CreateFileCall p # rest"
    using run ef dr notdir notnl by (simp add: AddForksToDisk_def)
  with create_trace_head [of drv ?p3 dataBuf d1 rsrcBuf r2 tr] have "p = ?p3" by auto
  with dropRsrc_fileType [OF dr] same show ?thesis
    by (auto simp: AddForksToDisk_dosType_def kFileTypeBIN_def kFileTypeINT_def kFileTypeBAS_def)
qed


lemmas AddForksToDisk_run_defs =
  AddForksToDisk_def AddForksToDisk_emptyFolder_def AddForksToDisk_dropRsrc_def
  AddForksToDisk_dosType_def AddForksToDisk_create_def AddForksToDisk_fork_def bail_eq
  Left_def exExt_def exDrv_def exDrvWriteFails_def exParms_def
  kFileTypeBIN_def kFileTypeINT_def kFileTypeBAS_def

theorem AddForksToDisk_dos_type_witness:
  "snd (AddForksToDisk exExt kFormatDOS33 exDrv (exParms ''PROG'' kNuStorageSeedling 0xfc)
          (Some (replicate 70000 0)) 70000 None (-1) [])
     = [] @ CreateFileCall (exParms ''PROG'' kNuStorageSeedling 0xf2) #
         [OpenCall 1 False, WriteCall 7 (Some (replicate 70000 0)) 70000, CloseCall 7] \<and>
   storageType (exParms ''PROG'' kNuStorageSeedling 0xf2) \<noteq> kNuStorageDirectory \<and>
   fileType (exParms ''PROG'' kNuStorageSeedling 0xf2) = 0xf2"
proof -
  have run: "snd (AddForksToDisk exExt kFormatDOS33 exDrv (exParms ''PROG'' kNuStorageSeedling 0xfc)
          (Some (replicate 70000 0)) 70000 None (-1) [])
     = [] @ CreateFileCall (exParms ''PROG'' kNuStorageSeedling 0xf2) #
         [OpenCall 1 False, WriteCall 7 (Some (replicate 70000 0)) 70000, CloseCall 7]"
    by (simp add: AddForksToDisk_run_defs)
  have st: "storageType (exParms ''PROG'' kNuStorageSeedling 0xf2) \<noteq> kNuStorageDirectory"
    by (simp add: exParms_def)
  from AddForksToDisk_dos_type [OF run st] run st show ?thesis
    by (simp add: exParms_def exExt_def)
qed

theorem AddForksToDisk_dos_type_at_64K:
  "\<not> (65536 :: int) > 64 * 1024 \<and>
   hd (snd (AddForksToDisk exExt kFormatDOS33 exDrv (exParms ''BIG'' kNuStorageSeedling 0x06)
              (Some (replicate 65536 0)) 65536 None (-1) []))
     = CreateFileCall (exParms ''BIG'' kNuStorageSeedling 0xf2) \<and>
   fileType (exParms ''BIG'' kNuStorageSeedling 0xf2) \<noteq> fileType (exParms ''BIG'' kNuStorageSeedling 0x06)"
  by (simp add: AddForksToDisk_run_defs)

lemma strrchr_last:
  "c \<notin> set m \<Longrightarrow> strrchr (xs @ c # m) c = Some (length xs)"
proof (induction xs)
  case Nil
  then have "strrchr m c = None" by (induction m) auto
  then show ?case by simp
next
  case (Cons a xs)
  then show ?case by simp
qed

text \<open>
  For every parent path and every marker free of the separator, the request for
  parent, separator, marker is rewritten to the parent without its last character.
\<close>

lemma AddForksToDisk_emptyFolder_butlast:
  assumes "fssep p \<noteq> CHR 0x00" and "storageType p = kNuStorageSeedling"
    and "fssep p \<notin> set (kEmptyFolderMarker ext)"
    and "pathName p = parent @ fssep p # kEmptyFolderMarker ext"
  shows "AddForksToDisk_emptyFolder ext p 0 =
     (p \<lparr> storageType := kNuStorageDirectory, pathName := butlast parent, fileType := 0x0f,
           access := access p AND NOT (A2FileProDOS_kAccessInvisible ext) \<rparr>, -1)"
proof -
  have "nat (int (length parent) - 1) = length parent - 1" by arith
  with strrchr_last [OF assms(3), of parent] assms show ?thesis
    by (simp add: AddForksToDisk_emptyFolder_def Left_def butlast_conv_take)
qed

text \<open>
  Claim C6. Transferring out the empty directory \<open>SUBDIR\<close> with empty folders preserved
  gives one request, with \<open>dataLen = 0\<close> and no resource fork, whose storage name is
  \<open>SUBDIR:.$$EmptyFolder\<close>. On the add side, a seedling request for that path with an
  empty data fork, on a hierarchical destination, becomes one directory-creation call
  (directory storage type, file type \<open>0x0f\<close>, invisible bit cleared, no fork opened), but
  the path it names is \<open>SUBDI\<close>: \<open>Left(cp - parmCopy.pathName - 1)\<close> cuts one character
  more than the separator and the marker.
\<close>

theorem AddForksToDisk_empty_folder_path:
  "XferSelection_entry exExt True (\<lambda>prefix. 0) (exDetails ''OLD'' kFileKindRsrcFork)
     (exEntry ''SUBDIR'' kRecordKindDirectory)
   = XferRequest
       \<lparr> origName = ''OLD'', storageName = ''SUBDIR:.$$EmptyFolder'',
         entryKind = kFileKindDataFork, fileSysFmt = kFormatProDOS, fileSysInfo = CHR '':'',
         fd_storageType = kNuStorageUnknown, fd_fileType = 0, extraType = 0, fd_access = 0xc7,
         fd_createWhen = -2, fd_modWhen = 100 \<rparr> 0 (-1) \<and>
   AddForksToDisk exExt kFormatProDOS exDrv
     (exParms ''SUBDIR:.$$EmptyFolder'' kNuStorageSeedling 0) None 0 None (-1) []
   = (Returned kDIErrNone,
      [CreateFileCall \<lparr> pathName = ''SUBDI'', fssep = CHR '':'',
         storageType = kNuStorageDirectory, fileType = 0x0f, auxType = 0, access = 0xe3,
         createWhen = 0, modWhen = 0 \<rparr>])"
  by (simp add: AddForksToDisk_run_defs XferSelection_entry_def XferSelection_fixedPathName_def
      XferSelection_have_stuff2_def exEntry_def exDetails_def)

text \<open>
  Claim C8. Suppose \<open>AddForksToDisk\<close> returns an error and its first driver call was a
  \<open>CreateFile\<close> that succeeded and delivered the new file \<open>f\<close>. Then the error returned
  is the one the driver gave to an \<open>Open\<close>, \<open>Write\<close> or \<open>Close\<close> call on a fork, and
  after that failing call the function made at most a \<open>Close\<close> of the fork still open and
  then, as its last driver call, \<open>DeleteFile\<close> on \<open>f\<close>. Whatever \<open>DeleteFile\<close> answers,
  the function returns the same error and makes the same calls. Conversely, when the
  function does not return an error, every fork call it made was answered with success:
  a failed fork call is never followed by a successful return.
\<close>

theorem AddForksToDisk_cleanup:
  "(AddForksToDisk ext fmt drv pParms dataBuf dataLen rsrcBuf rsrcLen tr = (Returned e, tr') \<and>
    e \<noteq> kDIErrNone \<and> tr' = tr @ CreateFileCall p # rest \<and>
    CreateFile drv tr p = (kDIErrNone, Some f) \<longrightarrow>
      (\<exists>pre c post. tr' = pre @ c # post \<and> is_fork_call c \<and> answer drv pre c = e \<and>
          (post = [DeleteFileCall f] \<or> (\<exists>fd. post = [CloseCall fd, DeleteFileCall f]))) \<and>
      AddForksToDisk ext fmt (drv\<lparr>DeleteFile := del\<rparr>) pParms dataBuf dataLen rsrcBuf rsrcLen tr
        = (Returned e, tr')) \<and>
   (AddForksToDisk ext fmt drv pParms dataBuf dataLen rsrcBuf rsrcLen tr = (r, tr'') \<and>
    (r = Returned kDIErrNone \<or> r = NullDereference) \<longrightarrow>
      (\<exists>new. tr'' = tr @ new \<and> fork_calls_succeeded drv tr new))"
  using AddForksToDisk_error_after_create
      [of ext fmt drv pParms dataBuf dataLen rsrcBuf rsrcLen tr e tr' p rest f del]
    AddForksToDisk_no_error [of ext fmt drv pParms dataBuf dataLen rsrcBuf rsrcLen tr r tr'']
  by blast

theorem AddForksToDisk_cleanup_witness:
  "AddForksToDisk exExt kFormatProDOS exDrvWriteFails (exParms ''F'' kNuStorageExtended 6)
     (Some [1, 2]) 2 (Some [3]) 1 []
   = (Returned (kDIErrOther 5),
      [CreateFileCall (exParms ''F'' kNuStorageExtended 6), OpenCall 1 False,
       WriteCall 7 (Some [1, 2]) 2, CloseCall 7, DeleteFileCall 1]) \<and>
   kDIErrOther 5 \<noteq> kDIErrNone \<and>
   CreateFile exDrvWriteFails [] (exParms ''F'' kNuStorageExtended 6) = (kDIErrNone, Some 1) \<and>
   DeleteFile exDrvWriteFails
     [CreateFileCall (exParms ''F'' kNuStorageExtended 6), OpenCall 1 False,
      WriteCall 7 (Some [1, 2]) 2, CloseCall 7] 1 = kDIErrOther 9 \<and>
   (\<exists>pre c post.
      [CreateFileCall (exParms ''F'' kNuStorageExtended 6), OpenCall 1 False,
       WriteCall 7 (Some [1, 2]) 2, CloseCall 7, DeleteFileCall 1] = pre @ c # post \<and>
      is_fork_call c \<and> answer exDrvWriteFails pre c = kDIErrOther 5 \<and>
      (post = [DeleteFileCall 1] \<or> (\<exists>fd. post = [CloseCall fd, DeleteFileCall 1]))) \<and>
   AddForksToDisk exExt kFormatProDOS exDrv (exParms ''F'' kNuStorageExtended 6)
     (Some [1, 2]) 2 (Some [3]) 1 []
   = (Returned kDIErrNone,
      [CreateFileCall (exParms ''F'' kNuStorageExtended 6), OpenCall 1 False,
       WriteCall 7 (Some [1, 2]) 2, CloseCall 7, OpenCall 1 True,
       WriteCall 7 (Some [3]) 1, CloseCall 7]) \<and>
   fork_calls_succeeded exDrv []
     [CreateFileCall (exParms ''F'' kNuStorageExtended 6), OpenCall 1 False,
      WriteCall 7 (Some [1, 2]) 2, CloseCall 7, OpenCall 1 True,
      WriteCall 7 (Some [3]) 1, CloseCall 7]"
proof -
  let ?tr = "[CreateFileCall (exParms ''F'' kNuStorageExtended 6), OpenCall 1 False,
       WriteCall 7 (Some [1, 2]) 2, CloseCall 7, DeleteFileCall 1]"
  let ?ok = "[CreateFileCall (exParms ''F'' kNuStorageExtended 6), OpenCall 1 False,
       WriteCall 7 (Some [1, 2]) 2, CloseCall 7, OpenCall 1 True,
       WriteCall 7 (Some [3]) 1, CloseCall 7]"
  have run: "AddForksToDisk exExt kFormatProDOS exDrvWriteFails (exParms ''F'' kNuStorageExtended 6)
     (Some [1, 2]) 2 (Some [3]) 1 [] = (Returned (kDIErrOther 5), ?tr)"
    by (simp add: AddForksToDisk_run_defs)
  have run2: "AddForksToDisk exExt kFormatProDOS exDrv (exParms ''F'' kNuStorageExtended 6)
     (Some [1, 2]) 2 (Some [3]) 1 [] = (Returned kDIErrNone, ?ok)"
    by (simp add: AddForksToDisk_run_defs)
  have err: "kDIErrOther 5 \<noteq> kDIErrNone" by simp
  have first: "?tr = [] @ CreateFileCall (exParms ''F'' kNuStorageExtended 6) #
       [OpenCall 1 False, WriteCall 7 (Some [1, 2]) 2, CloseCall 7, DeleteFileCall 1]"
    by simp
  have created: "CreateFile exDrvWriteFails [] (exParms ''F'' kNuStorageExtended 6)
                 = (kDIErrNone, Some 1)"
    by (simp add: exDrvWriteFails_def)
  have del: "DeleteFile exDrvWriteFails
     [CreateFileCall (exParms ''F'' kNuStorageExtended 6), OpenCall 1 False,
      WriteCall 7 (Some [1, 2]) 2, CloseCall 7] 1 = kDIErrOther 9"
    by (simp add: exDrvWriteFails_def)
  note a = AddForksToDisk_cleanup [of exExt kFormatProDOS exDrvWriteFails
      "exParms ''F'' kNuStorageExtended 6" "Some [1, 2]" 2 "Some [3]" 1 "[]" "kDIErrOther 5" ?tr
      "exParms ''F'' kNuStorageExtended 6"
      "[OpenCall 1 False, WriteCall 7 (Some [1, 2]) 2, CloseCall 7, DeleteFileCall 1]" 1
      "DeleteFile exDrvWriteFails" "Returned (kDIErrOther 5)" ?tr]
  note b = AddForksToDisk_cleanup [of exExt kFormatProDOS exDrv
      "exParms ''F'' kNuStorageExtended 6" "Some [1, 2]" 2 "Some [3]" 1 "[]" "kDIErrOther 5" ?tr
      "exParms ''F'' kNuStorageExtended 6"
      "[OpenCall 1 False, WriteCall 7 (Some [1, 2]) 2, CloseCall 7, DeleteFileCall 1]" 1
      "DeleteFile exDrv" "Returned kDIErrNone" ?ok]
  from b run2 have ok: "fork_calls_succeeded exDrv [] ?ok" by simp
  from a run err first created have
    "\<exists>pre c post. ?tr = pre @ c # post \<and> is_fork_call c \<and>
        answer exDrvWriteFails pre c = kDIErrOther 5 \<and>
        (post = [DeleteFileCall 1] \<or> (\<exists>fd. post = [CloseCall fd, DeleteFileCall 1]))"
    by blast
  with run run2 err created del ok show ?thesis by blast
qed

theorem AddForksToDisk_drops_rsrc_witness:
  "\<not> HasResourceForks exExt kFormatDOS33 \<and> (1 :: int) \<ge> 0 \<and>
   storageType (exParms ''F'' kNuStorageExtended 4) \<noteq> kNuStorageSeedling \<and>
   storageType (exParms ''F'' kNuStorageExtended 4) \<noteq> kNuStorageDirectory \<and>
   AddForksToDisk exExt kFormatDOS33 exDrv (exParms ''F'' kNuStorageExtended 4)
     None (-1) (Some [3]) 1 [] = (Returned kDIErrNone, []) \<and>
   fst (AddForksToDisk exExt kFormatDOS33 exDrv (exParms ''F'' kNuStorageExtended 4)
     (Some [1, 2]) 2 (Some [3]) 1 []) = Returned kDIErrNone"
proof -
  have h: "\<not> HasResourceForks exExt kFormatDOS33" "(1 :: int) \<ge> 0"
    "storageType (exParms ''F'' kNuStorageExtended 4) \<noteq> kNuStorageSeedling"
    "storageType (exParms ''F'' kNuStorageExtended 4) \<noteq> kNuStorageDirectory"
    by (simp_all add: exExt_def exParms_def)
  have d: "(\<forall>t q. \<exists>f. CreateFile exDrv t q = (kDIErrNone, Some f)) \<and>
         (\<forall>t f r. \<exists>fd. Open exDrv t f r = (kDIErrNone, Some fd)) \<and>
         (\<forall>t fd b n. Write exDrv t fd b n = kDIErrNone) \<and>
         (\<forall>t fd. Close exDrv t fd = kDIErrNone)"
    by (simp add: exDrv_def)
  from AddForksToDisk_drops_rsrc [of exExt kFormatDOS33 1 "exParms ''F'' kNuStorageExtended 4"
      "-1" exDrv None "Some [3]" "[]"]
    AddForksToDisk_drops_rsrc [of exExt kFormatDOS33 1 "exParms ''F'' kNuStorageExtended 4"
      2 exDrv "Some [1, 2]" "Some [3]" "[]"] h d
  show ?thesis by simp
qed


subsection \<open>The 16 MB limit of LoadFile\<close>

lemma LoadFile_too_large:
  "hostfs path = Some fp \<Longrightarrow> \<not> hf_seek_fails fp \<Longrightarrow> \<not> hf_tell_fails fp \<Longrightarrow>
   length (hf_bytes fp) > 0x00ffffff \<Longrightarrow>
   LoadFile detConv hostfs path conv convHA = Inl CannotAddFilesLargerThan16MB"
  by (auto simp: LoadFile_def Let_def)

lemma LoadFile_accepts:
  "hostfs path = Some fp \<Longrightarrow> \<not> hf_seek_fails fp \<Longrightarrow> \<not> hf_tell_fails fp \<Longrightarrow>
   \<not> hf_alloc_fails fp \<Longrightarrow> \<not> hf_read_fails fp \<Longrightarrow> length (hf_bytes fp) \<le> 0x00ffffff \<Longrightarrow>
   \<exists>pBuf pLen. LoadFile detConv hostfs path conv convHA = Inr (pBuf, pLen)"
  by (auto simp: LoadFile_def Let_def split: prod.splits)

lemma node_data_too_large:
  assumes "ProcessFileAddData_forks pData = Inr (Some dd, pr)"
    and "hostfs (origName dd) = Some fp" and "\<not> hf_seek_fails fp" and "\<not> hf_tell_fails fp"
    and "length (hf_bytes fp) > 0x00ffffff"
  shows "ProcessFileAddData_node ext hostfs fmt drv addOpts pData tr
         = (ErrMsg (Some (LoadFileFailed CannotAddFilesLargerThan16MB)), tr)"
  using assms(1)
    LoadFile_too_large [where hostfs=hostfs and path="origName dd" and fp=fp, OF assms(2-5)]
  by (simp add: ProcessFileAddData_node_def Let_def)

text \<open>
  Claim C3. A host file of \<open>0x00ffffff\<close> bytes that can be read is accepted by
  \<open>LoadFile\<close> in every conversion mode. A host file of \<open>0x01000000\<close> bytes (or more) is
  rejected with the message "Cannot add files larger than 16MB to a disk image.", and
  when it is the data fork of the node \<open>ProcessFileAddData\<close> is working on, that message
  is returned with no driver call made for the node: the calls made are those made before.
\<close>

theorem LoadFile_16MB_limit:
  "(hostfs path = Some fp \<and> \<not> hf_seek_fails fp \<and> \<not> hf_tell_fails fp \<and>
    \<not> hf_alloc_fails fp \<and> \<not> hf_read_fails fp \<and> length (hf_bytes fp) = 0x00ffffff \<longrightarrow>
      (\<exists>pBuf pLen. LoadFile detConv hostfs path conv convHA = Inr (pBuf, pLen))) \<and>
   (hostfs path = Some fp \<and> \<not> hf_seek_fails fp \<and> \<not> hf_tell_fails fp \<and>
    length (hf_bytes fp) \<ge> 0x01000000 \<longrightarrow>
      LoadFile detConv hostfs path conv convHA = Inl CannotAddFilesLargerThan16MB) \<and>
   (ProcessFileAddData_forks pData = Inr (Some dd, pr) \<and> hostfs (origName dd) = Some fp' \<and>
    \<not> hf_seek_fails fp' \<and> \<not> hf_tell_fails fp' \<and> length (hf_bytes fp') \<ge> 0x01000000 \<longrightarrow>
      ProcessFileAddData ext hostfs fmt drv addOpts (pData # rest) tr
        = (ErrMsg (Some (LoadFileFailed CannotAddFilesLargerThan16MB)), tr))"
  using LoadFile_accepts [of hostfs path fp detConv conv convHA]
    LoadFile_too_large [of hostfs path fp detConv conv convHA]
    node_data_too_large [of pData dd pr hostfs fp' ext fmt drv addOpts tr]
  by simp

theorem LoadFile_16MB_limit_witness:
  "LoadFile (DetermineConversion exExt) (\<lambda>p. Some (exHostFile (replicate 16777215 0x41)))
     ''BIG'' kConvertEOLOff kConvertHAOff = Inr (Some (replicate 16777215 0x41), 16777215) \<and>
   LoadFile (DetermineConversion exExt) (\<lambda>p. Some (exHostFile (replicate 16777216 0x41)))
     ''BIG'' kConvertEOLOff kConvertHAOff = Inl CannotAddFilesLargerThan16MB \<and>
   ProcessFileAddData exExt (\<lambda>p. Some (exHostFile (replicate 16777216 0x41))) kFormatProDOS exDrv
     kConvEOLNone [FileAddData_new (exDetails ''BIG'' kFileKindDataFork) ''BIG''] []
   = (ErrMsg (Some (LoadFileFailed CannotAddFilesLargerThan16MB)), [])"
proof -
  let ?ok = "exHostFile (replicate 16777215 0x41)"
  let ?big = "exHostFile (replicate 16777216 0x41)"
  have ok: "\<not> hf_seek_fails ?ok \<and> \<not> hf_tell_fails ?ok \<and> \<not> hf_alloc_fails ?ok \<and>
            \<not> hf_read_fails ?ok \<and> length (hf_bytes ?ok) = 0x00ffffff"
    by (simp add: exHostFile_def)
  have big: "\<not> hf_seek_fails ?big \<and> \<not> hf_tell_fails ?big \<and> length (hf_bytes ?big) \<ge> 0x01000000"
    by (simp add: exHostFile_def)
  have forks: "ProcessFileAddData_forks (FileAddData_new (exDetails ''BIG'' kFileKindDataFork) ''BIG'')
               = Inr (Some (exDetails ''BIG'' kFileKindDataFork), None)"
    by (simp add: ProcessFileAddData_forks_def ProcessFileAddData_otherFork_def
        FileAddData_new_def exDetails_def)
  have val: "LoadFile (DetermineConversion exExt) (\<lambda>p. Some ?ok) ''BIG'' kConvertEOLOff
               kConvertHAOff = Inr (Some (replicate 16777215 0x41), 16777215)"
    by (simp add: LoadFile_def exHostFile_def)
  from LoadFile_16MB_limit [of "\<lambda>p. Some ?ok" "''BIG''" ?ok "DetermineConversion exExt"
      kConvertEOLOff kConvertHAOff "FileAddData_new (exDetails ''BIG'' kFileKindDataFork) ''BIG''"
      "exDetails ''BIG'' kFileKindDataFork" None ?big exExt kFormatProDOS exDrv kConvEOLNone
      "[]" "[]"]
    LoadFile_16MB_limit [of "\<lambda>p. Some ?big" "''BIG''" ?big "DetermineConversion exExt"
      kConvertEOLOff kConvertHAOff "FileAddData_new (exDetails ''BIG'' kFileKindDataFork) ''BIG''"
      "exDetails ''BIG'' kFileKindDataFork" None ?big exExt kFormatProDOS exDrv kConvEOLNone
      "[]" "[]"]
    ok big forks val
  show ?thesis by simp
qed


subsection \<open>Order of deletion\<close>

lemma wcsicmp_refl: "wcsicmp s s = 0"
  by (induction s) auto

lemma wcsicmp_strict_prefix: "wcsicmp (p @ x # s) p > 0"
  by (induction p) auto

lemma wcsicmp_prefix_gt:
  assumes "strict_prefix p q"
  shows "wcsicmp q p > 0"
proof -
  from assms obtain zs where "q = p @ zs" "zs \<noteq> []"
    by (auto simp: strict_prefix_def prefix_def)
  then obtain x s where "q = p @ x # s" by (cases zs) auto
  then show ?thesis by (simp add: wcsicmp_strict_prefix)
qed

lemma loop_trace:
  "\<exists>n. snd (DeleteSelection_loop rw drv arr tr) = tr @ map (\<lambda>e. DeleteFileCall (GetA2File e)) (take n arr)"
proof (induction arr arbitrary: tr)
  case Nil
  then show ?case by simp
next
  case (Cons e arr)
  show ?case
  proof (cases "rw (GetA2File e) \<and> DeleteFile drv tr (GetA2File e) = kDIErrNone")
    case True
    from Cons [of "tr @ [DeleteFileCall (GetA2File e)]"] obtain n where
      "snd (DeleteSelection_loop rw drv arr (tr @ [DeleteFileCall (GetA2File e)])) =
        (tr @ [DeleteFileCall (GetA2File e)]) @ map (\<lambda>e. DeleteFileCall (GetA2File e)) (take n arr)"
      by blast
    with True show ?thesis by (intro exI [of _ "Suc n"]) simp
  next
    case False
    then consider "\<not> rw (GetA2File e)" | "rw (GetA2File e)" "DeleteFile drv tr (GetA2File e) \<noteq> kDIErrNone"
      by blast
    then show ?thesis
    proof cases
      case 1
      then show ?thesis by (intro exI [of _ 0]) simp
    next
      case 2
      then show ?thesis by (intro exI [of _ "Suc 0"]) simp
    qed
  qed
qed

lemma loop_all_succeed:
  "\<forall>f. rw f \<Longrightarrow> \<forall>t f. DeleteFile drv t f = kDIErrNone \<Longrightarrow>
   DeleteSelection_loop rw drv arr tr = (True, tr @ map (\<lambda>e. DeleteFileCall (GetA2File e)) arr)"
  by (induction arr arbitrary: tr) auto

lemma sorted_unique:
  assumes "sorted_wrt (\<lambda>a b. \<not> R b a) xs" and "mset ys = mset xs" and "sorted_wrt R ys"
  shows "ys = xs"
  using assms
proof (induction xs arbitrary: ys)
  case Nil
  then show ?case by simp
next
  case (Cons x xs)
  then obtain y ys' where ys: "ys = y # ys'" by (cases ys) auto
  have "y = x"
  proof (rule ccontr)
    assume ne: "y \<noteq> x"
    from Cons.prems(2) ys have "x \<in># mset (y # ys')" by simp
    with ne have "x \<in> set ys'" by simp
    with Cons.prems(3) ys have "R y x" by simp
    moreover from Cons.prems(2) ys have "y \<in># mset (x # xs)" by (metis list.set_intros(1) set_mset_mset)
    with ne have "y \<in> set xs" by simp
    with Cons.prems(1) have "\<not> R y x" by simp
    ultimately show False by simp
  qed
  with Cons ys show ?case by simp
qed


lemma sorted_prefix_order:
  assumes srt: "sorted_wrt (\<lambda>a b. CompareDisplayNamesDesc a b \<le> 0) arr"
    and i: "i < length arr" and j: "j < length arr"
    and pre: "strict_prefix (GetDisplayName (arr ! i)) (GetDisplayName (arr ! j))"
  shows "j < i"
proof (rule ccontr)
  assume "\<not> j < i"
  moreover from pre have "i \<noteq> j" by auto
  ultimately have "i < j" by simp
  with srt j have "CompareDisplayNamesDesc (arr ! i) (arr ! j) \<le> 0"
    by (simp add: sorted_wrt_iff_nth_less)
  with wcsicmp_prefix_gt [OF pre] show False by (simp add: CompareDisplayNamesDesc_def)
qed

text \<open>
  Claim C4. Let \<open>qsort\<close> do on the selection what the C standard promises. Then the
  \<open>DeleteFile\<close> calls of \<open>DeleteSelection\<close> are, in order, those for an initial segment of
  the sorted array; the sorted array is a rearrangement of the selection in which a later
  display name never compares greater (by \<open>wcsicmp\<close>) than an earlier one; and an entry
  whose display name is a proper prefix of another's comes after it. For the display
  names \<open>/A\<close>, \<open>/A/B\<close>, \<open>/A/B/C\<close> selected in any order, the sorted array is
  \<open>/A/B/C\<close>, \<open>/A/B\<close>, \<open>/A\<close>, and when the driver allows and performs every deletion
  these three are deleted in that order.
\<close>

theorem DeleteSelection_order:
  assumes q: "qsort_sorts qsort CompareDisplayNamesDesc pSelSet"
  shows "(\<exists>n. snd (DeleteSelection qsort rw drv reloadOK pSelSet tr)
            = tr @ map (\<lambda>e. DeleteFileCall (GetA2File e))
                     (take n (qsort CompareDisplayNamesDesc pSelSet))) \<and>
         mset (qsort CompareDisplayNamesDesc pSelSet) = mset pSelSet \<and>
         (\<forall>i j. i < j \<and> j < length pSelSet \<longrightarrow>
            wcsicmp (GetDisplayName (qsort CompareDisplayNamesDesc pSelSet ! j))
                    (GetDisplayName (qsort CompareDisplayNamesDesc pSelSet ! i)) \<le> 0) \<and>
         (\<forall>i j. i < length pSelSet \<and> j < length pSelSet \<and>
            strict_prefix (GetDisplayName (qsort CompareDisplayNamesDesc pSelSet ! i))
                          (GetDisplayName (qsort CompareDisplayNamesDesc pSelSet ! j)) \<longrightarrow> j < i) \<and>
         (GetDisplayName a = ''/A'' \<and> GetDisplayName b = ''/A/B'' \<and> GetDisplayName c = ''/A/B/C'' \<and>
          mset pSelSet = mset [a, b, c] \<longrightarrow>
            qsort CompareDisplayNamesDesc pSelSet = [c, b, a] \<and>
            ((\<forall>f. rw f) \<and> (\<forall>t f. DeleteFile drv t f = kDIErrNone) \<longrightarrow>
               DeleteSelection qsort rw drv reloadOK pSelSet tr
                 = (reloadOK, tr @ [DeleteFileCall (GetA2File c), DeleteFileCall (GetA2File b),
                                    DeleteFileCall (GetA2File a)])))"
proof -
  let ?arr = "qsort CompareDisplayNamesDesc pSelSet"
  from q have ms: "mset ?arr = mset pSelSet"
    and srt: "sorted_wrt (\<lambda>a b. CompareDisplayNamesDesc a b \<le> 0) ?arr"
    by (simp_all add: qsort_sorts_def)
  from ms have len: "length ?arr = length pSelSet" by (metis size_mset)
  have 1: "\<exists>n. snd (DeleteSelection qsort rw drv reloadOK pSelSet tr)
            = tr @ map (\<lambda>e. DeleteFileCall (GetA2File e)) (take n ?arr)"
    using loop_trace [of rw drv ?arr tr]
    by (auto simp: DeleteSelection_def Let_def split: prod.splits)
  have 3: "\<forall>i j. i < j \<and> j < length pSelSet \<longrightarrow>
            wcsicmp (GetDisplayName (?arr ! j)) (GetDisplayName (?arr ! i)) \<le> 0"
    using srt len by (simp add: sorted_wrt_iff_nth_less CompareDisplayNamesDesc_def)
  have 4: "\<forall>i j. i < length pSelSet \<and> j < length pSelSet \<and>
            strict_prefix (GetDisplayName (?arr ! i)) (GetDisplayName (?arr ! j)) \<longrightarrow> j < i"
    using sorted_prefix_order [OF srt] len by auto
  have 5: "?arr = [c, b, a] \<and>
            ((\<forall>f. rw f) \<and> (\<forall>t f. DeleteFile drv t f = kDIErrNone) \<longrightarrow>
               DeleteSelection qsort rw drv reloadOK pSelSet tr
                 = (reloadOK, tr @ [DeleteFileCall (GetA2File c), DeleteFileCall (GetA2File b),
                                    DeleteFileCall (GetA2File a)]))"
    if n: "GetDisplayName a = ''/A''" "GetDisplayName b = ''/A/B''" "GetDisplayName c = ''/A/B/C''"
      and m: "mset pSelSet = mset [a, b, c]"
  proof -
    have "sorted_wrt (\<lambda>x y. \<not> CompareDisplayNamesDesc y x \<le> 0) [c, b, a]"
      using n by (simp add: CompareDisplayNamesDesc_def towlower_def)
    moreover have "mset ?arr = mset [c, b, a]" using ms m by (simp add: ac_simps)
    ultimately have arr: "?arr = [c, b, a]"
      using srt by (rule sorted_unique)
    then show ?thesis
      by (auto simp: DeleteSelection_def loop_all_succeed)
  qed
  from 1 ms 3 4 5 show ?thesis by blast
qed


theorem DeleteSelection_order_witness:
  "qsort_sorts exQsort CompareDisplayNamesDesc
     [exSel ''/A'' 1, exSel ''/A/B/C'' 3, exSel ''/A/B'' 2] \<and>
   mset [exSel ''/A'' 1, exSel ''/A/B/C'' 3, exSel ''/A/B'' 2]
     = mset [exSel ''/A'' 1, exSel ''/A/B'' 2, exSel ''/A/B/C'' 3] \<and>
   DeleteSelection exQsort (\<lambda>f. True) exDrv True
     [exSel ''/A'' 1, exSel ''/A/B/C'' 3, exSel ''/A/B'' 2] []
   = (True, [DeleteFileCall 3, DeleteFileCall 2, DeleteFileCall 1])"
proof -
  let ?sel = "[exSel ''/A'' 1, exSel ''/A/B/C'' 3, exSel ''/A/B'' 2]"
  have srt: "exQsort CompareDisplayNamesDesc ?sel
             = [exSel ''/A/B/C'' 3, exSel ''/A/B'' 2, exSel ''/A'' 1]"
    by (simp add: CompareDisplayNamesDesc_def exSel_def towlower_def)
  have q: "qsort_sorts exQsort CompareDisplayNamesDesc ?sel"
    unfolding qsort_sorts_def srt
    by (simp add: CompareDisplayNamesDesc_def exSel_def towlower_def)
  have m: "mset ?sel = mset [exSel ''/A'' 1, exSel ''/A/B'' 2, exSel ''/A/B/C'' 3]"
    by simp
  have n: "GetDisplayName (exSel ''/A'' 1) = ''/A''" "GetDisplayName (exSel ''/A/B'' 2) = ''/A/B''"
    "GetDisplayName (exSel ''/A/B/C'' 3) = ''/A/B/C''"
    "GetA2File (exSel ''/A'' 1) = 1" "GetA2File (exSel ''/A/B'' 2) = 2"
    "GetA2File (exSel ''/A/B/C'' 3) = 3"
    by (simp_all add: exSel_def)
  have d: "(\<forall>f. (\<lambda>f. True) f) \<and> (\<forall>t f. DeleteFile exDrv t f = kDIErrNone)"
    by (simp add: exDrv_def)
  from DeleteSelection_order [OF q, of "\<lambda>f. True" exDrv True "[]" "exSel ''/A'' 1"
      "exSel ''/A/B'' 2" "exSel ''/A/B/C'' 3"] q m n d
  show ?thesis by simp
qed


subsection \<open>The catalog loader\<close>

lemma kind_of_entry:
  "fRecordKind (LoadDiskFSContents_entry ext c volName pFile) =
     (if IsVolumeDirectory pFile then kRecordKindVolumeDir
      else if IsDirectory pFile then kRecordKindDirectory
      else if GetRsrcLength pFile \<ge> 0 then kRecordKindForkedFile
      else kRecordKindFile)"
  by (simp add: LoadDiskFSContents_entry_def LoadDiskFSContents_kind_def Let_def)

lemma rsrc_of_entry:
  "fRsrcForkLen (LoadDiskFSContents_entry ext c volName pFile) =
     (if \<not> IsVolumeDirectory pFile \<and> \<not> IsDirectory pFile \<and> GetRsrcLength pFile \<ge> 0
      then GetRsrcLength pFile else -1)"
  by (simp add: LoadDiskFSContents_entry_def LoadDiskFSContents_kind_def Let_def DiskEntry_new_def)

lemma loaded_is_entry:
  "e \<in> set (LoadDiskFSContents ext c fs volName) \<Longrightarrow>
   \<exists>v pFile. e = LoadDiskFSContents_entry ext c v pFile"
  by (induction ext c fs volName rule: LoadDiskFSContents.induct) auto

text \<open>
  Claim C2. Every entry that \<open>LoadDiskFSContents\<close> produces, at any depth of sub-volumes,
  has record kind forked-file exactly when its resource-fork length is at least 0, and
  resource-fork length \<open>-1\<close> when its kind is volume directory or directory. The kind of
  the entry made for a file is decided in this order: volume directory, directory,
  resource-fork length of the file at least 0, plain file; and a forked entry carries the
  file's resource-fork length.
\<close>

theorem LoadDiskFSContents_recordKind:
  "(\<forall>e \<in> set (LoadDiskFSContents ext c fs volName).
      (fRecordKind e = kRecordKindForkedFile \<longleftrightarrow> fRsrcForkLen e \<ge> 0) \<and>
      (fRecordKind e = kRecordKindVolumeDir \<or> fRecordKind e = kRecordKindDirectory \<longrightarrow>
         fRsrcForkLen e = -1)) \<and>
   fRecordKind (LoadDiskFSContents_entry ext c volName pFile) =
     (if IsVolumeDirectory pFile then kRecordKindVolumeDir
      else if IsDirectory pFile then kRecordKindDirectory
      else if GetRsrcLength pFile \<ge> 0 then kRecordKindForkedFile
      else kRecordKindFile) \<and>
   (fRecordKind (LoadDiskFSContents_entry ext c volName pFile) = kRecordKindForkedFile \<longrightarrow>
      fRsrcForkLen (LoadDiskFSContents_entry ext c volName pFile) = GetRsrcLength pFile)"
proof -
  have "(fRecordKind e = kRecordKindForkedFile \<longleftrightarrow> fRsrcForkLen e \<ge> 0) \<and>
      (fRecordKind e = kRecordKindVolumeDir \<or> fRecordKind e = kRecordKindDirectory \<longrightarrow>
         fRsrcForkLen e = -1)" if "e \<in> set (LoadDiskFSContents ext c fs volName)" for e
  proof -
    from loaded_is_entry [OF that] obtain v pFile where
      "e = LoadDiskFSContents_entry ext c v pFile" by blast
    then show ?thesis by (simp add: kind_of_entry rsrc_of_entry)
  qed
  then show ?thesis by (simp add: kind_of_entry rsrc_of_entry)
qed

theorem LoadDiskFSContents_recordKind_witness:
  "map (\<lambda>e. (fRecordKind e, fRsrcForkLen e)) (LoadDiskFSContents exExt False exVolume [])
     = [(kRecordKindVolumeDir, -1), (kRecordKindDirectory, -1),
        (kRecordKindForkedFile, 0), (kRecordKindFile, -1)] \<and>
   LoadDiskFSContents_entry exExt False ''_SUB'' (exFile ''FORKED'' False False 0)
     \<in> set (LoadDiskFSContents exExt False exVolume []) \<and>
   (fRecordKind (LoadDiskFSContents_entry exExt False ''_SUB'' (exFile ''FORKED'' False False 0))
      = kRecordKindForkedFile \<longleftrightarrow>
    fRsrcForkLen (LoadDiskFSContents_entry exExt False ''_SUB'' (exFile ''FORKED'' False False 0))
      \<ge> 0)"
proof -
  have m: "LoadDiskFSContents_entry exExt False ''_SUB'' (exFile ''FORKED'' False False 0)
     \<in> set (LoadDiskFSContents exExt False exVolume [])"
    by (simp add: exVolume_def LoadDiskFSContents_concatSubVolName_def
        subVolName_or_placeholder_def)
  have v: "map (\<lambda>e. (fRecordKind e, fRsrcForkLen e)) (LoadDiskFSContents exExt False exVolume [])
     = [(kRecordKindVolumeDir, -1), (kRecordKindDirectory, -1),
        (kRecordKindForkedFile, 0), (kRecordKindFile, -1)]"
    by (simp add: exVolume_def kind_of_entry rsrc_of_entry exFile_def)
  from LoadDiskFSContents_recordKind [of exExt False exVolume "[]"] m v
  show ?thesis by blast
qed

lemma concat_inj:
  "LoadDiskFSContents_concatSubVolName volName n1 = LoadDiskFSContents_concatSubVolName volName n2
   \<longleftrightarrow> subVolName_or_placeholder n1 = subVolName_or_placeholder n2"
  by (simp add: LoadDiskFSContents_concatSubVolName_def)

lemma concat_nonempty: "LoadDiskFSContents_concatSubVolName volName n \<noteq> []"
  by (simp add: LoadDiskFSContents_concatSubVolName_def)

lemma subvol_of_entry:
  "fSubVolName (LoadDiskFSContents_entry ext c volName pFile) =
     (if volName \<noteq> [] then Some volName else None)"
  by (simp add: LoadDiskFSContents_entry_def LoadDiskFSContents_kind_def Let_def DiskEntry_new_def)

text \<open>
  Claim C10, as amended. A sub-volume is loaded under the qualifier made of an underscore
  and its volume name (or \<open>+++\<close> when it has none) at the top level, and of the parent's
  qualifier, an underscore and that name below a sub-volume; the entries of its files
  carry this qualifier. Two sub-volumes of the same parent get the same qualifier exactly
  when their names, after the placeholder is put in, are the same.
\<close>

theorem LoadDiskFSContents_subvolume_qualifier:
  "LoadDiskFSContents ext c (DiskFS name files subVolumes) volName =
     map (LoadDiskFSContents_entry ext c volName) files @
     concat (map (\<lambda>pSubVol. LoadDiskFSContents ext c pSubVol
                    (LoadDiskFSContents_concatSubVolName volName (GetVolumeName pSubVol)))
              subVolumes) \<and>
   LoadDiskFSContents_concatSubVolName volName n =
     (if volName = [] then ''_'' @ subVolName_or_placeholder n
      else volName @ ''_'' @ subVolName_or_placeholder n) \<and>
   subVolName_or_placeholder n = (case n of None \<Rightarrow> ''+++'' | Some s \<Rightarrow> s) \<and>
   (LoadDiskFSContents_concatSubVolName volName n1 = LoadDiskFSContents_concatSubVolName volName n2
      \<longleftrightarrow> subVolName_or_placeholder n1 = subVolName_or_placeholder n2) \<and>
   fSubVolName (LoadDiskFSContents_entry ext c (LoadDiskFSContents_concatSubVolName volName n) pFile)
     = Some (LoadDiskFSContents_concatSubVolName volName n)"
  by (simp add: concat_inj subvol_of_entry concat_nonempty)
     (simp add: LoadDiskFSContents_concatSubVolName_def subVolName_or_placeholder_def)

theorem LoadDiskFSContents_same_name_siblings:
  "DiskFS (Some ''A'') [exFile ''F1'' False False (-1)] []
     \<noteq> DiskFS (Some ''A'') [exFile ''F2'' False False 0] [] \<and>
   LoadDiskFSContents_concatSubVolName []
      (GetVolumeName (DiskFS (Some ''A'') [exFile ''F1'' False False (-1)] []))
     = LoadDiskFSContents_concatSubVolName []
         (GetVolumeName (DiskFS (Some ''A'') [exFile ''F2'' False False 0] [])) \<and>
   map fSubVolName
     (LoadDiskFSContents exExt False
        (DiskFS (Some ''ROOT'') []
           [DiskFS (Some ''A'') [exFile ''F1'' False False (-1)] [],
            DiskFS (Some ''A'') [exFile ''F2'' False False 0] []]) [])
     = [Some ''_A'', Some ''_A'']"
  by (simp add: subvol_of_entry LoadDiskFSContents_concatSubVolName_def
      subVolName_or_placeholder_def exFile_def)

end
